theory Spec2Isabelle
  imports Complex_Main "HOL-Library.Word"
begin

section \<open>Python values\<close>

text \<open>
  The values that cross the boundary of \<^verbatim>\<open>core/core_face.py\<close>: configuration entries,
  the plain structures returned by \<^verbatim>\<open>as_dict()\<close> and \<^verbatim>\<open>json.loads\<close>, and strings.
  A \<^verbatim>\<open>dict\<close> is an association list in insertion order (its keys are strings, as in
  every mapping produced by \<^verbatim>\<open>as_dict()\<close> or by a JSON parse); a \<^verbatim>\<open>float\<close> is the real
  number it denotes (no arithmetic is done on floats, they are only compared);
  a \<^verbatim>\<open>str\<close> is a list of code points below 256.
\<close>

datatype pyval =
    PNone
  | PBool bool
  | PInt int
  | PFloat real
  | PStr string
  | PList "pyval list"
  | PDict "(string \<times> pyval) list"

type_synonym bytes = "8 word list"

text \<open>Python truthiness (\<^verbatim>\<open>bool(v)\<close>), as used by \<^verbatim>\<open>or\<close>, \<^verbatim>\<open>not\<close> and \<^verbatim>\<open>if\<close>.\<close>

fun truthy :: "pyval \<Rightarrow> bool" where
  "truthy PNone = False"
| "truthy (PBool b) = b"
| "truthy (PInt i) = (i \<noteq> 0)"
| "truthy (PFloat r) = (r \<noteq> 0)"
| "truthy (PStr s) = (s \<noteq> [])"
| "truthy (PList xs) = (xs \<noteq> [])"
| "truthy (PDict kvs) = (kvs \<noteq> [])"

text \<open>\<^verbatim>\<open>a or b\<close>: the first operand when it is truthy, the second otherwise.\<close>

definition py_or :: "pyval \<Rightarrow> pyval \<Rightarrow> pyval" where
  "py_or a b = (if truthy a then a else b)"

subsection \<open>Exceptions and their \<^verbatim>\<open>repr\<close>\<close>

text \<open>
  The exception classes that the module raises or names, each with its message;
  \<open>OtherException cls msg\<close> is any other subclass of \<^verbatim>\<open>Exception\<close> that the service
  library may raise (a timeout, a connection failure, a credential error).
\<close>

datatype exn =
    ValueError string
  | TypeError string
  | AttributeError string
  | RecursionError string
  | JSONDecodeError string
  | HttpResponseError string
  | OtherException string string

definition hex_digit :: "nat \<Rightarrow> char" where
  "hex_digit n = ''0123456789abcdef'' ! (n mod 16)"

text \<open>
  \<^verbatim>\<open>repr\<close> of a \<^verbatim>\<open>str\<close>: single quotes unless the text has a single quote and no
  double quote; the quote and the backslash are escaped, control and non-printable
  code points are written \<^verbatim>\<open>\t\<close>, \<^verbatim>\<open>\n\<close>, \<^verbatim>\<open>\r\<close> or \<^verbatim>\<open>\xhh\<close>.
\<close>

definition repr_char :: "char \<Rightarrow> char \<Rightarrow> string" where
  "repr_char q c =
     (let n = (of_char c :: nat) in
      if c = q \<or> c = CHR 0x5C then [CHR 0x5C, c]
      else if c = CHR 0x09 then [CHR 0x5C, CHR ''t'']
      else if c = CHR 0x0A then [CHR 0x5C, CHR ''n'']
      else if c = CHR 0x0D then [CHR 0x5C, CHR ''r'']
      else if n < 32 \<or> n = 127 \<or> (128 \<le> n \<and> n \<le> 160) \<or> n = 173
        then [CHR 0x5C, CHR ''x'', hex_digit (n div 16), hex_digit n]
      else [c])"

definition str_repr :: "string \<Rightarrow> string" where
  "str_repr s =
     (let q = (if CHR 0x27 \<in> set s \<and> CHR 0x22 \<notin> set s then CHR 0x22 else CHR 0x27)
      in [q] @ concat (map (repr_char q) s) @ [q])"

text \<open>\<^verbatim>\<open>repr(e)\<close> of an exception with one argument: the class name and the argument's repr.\<close>

fun exn_class :: "exn \<Rightarrow> string" where
  "exn_class (ValueError m) = ''ValueError''"
| "exn_class (TypeError m) = ''TypeError''"
| "exn_class (RecursionError m) = ''RecursionError''"
| "exn_class (AttributeError m) = ''AttributeError''"
| "exn_class (JSONDecodeError m) = ''JSONDecodeError''"
| "exn_class (HttpResponseError m) = ''HttpResponseError''"
| "exn_class (OtherException cls m) = cls"

fun exn_message :: "exn \<Rightarrow> string" where
  "exn_message (ValueError m) = m"
| "exn_message (TypeError m) = m"
| "exn_message (RecursionError m) = m"
| "exn_message (AttributeError m) = m"
| "exn_message (JSONDecodeError m) = m"
| "exn_message (HttpResponseError m) = m"
| "exn_message (OtherException cls m) = m"

definition repr_exn :: "exn \<Rightarrow> string" where
  "repr_exn e = exn_class e @ ''('' @ str_repr (exn_message e) @ '')''"

section \<open>Client factory\<close>

text \<open>
  A configuration is the \<^verbatim>\<open>dict\<close> \<^verbatim>\<open>cfg\<close>; \<^verbatim>\<open>os.environ\<close> is a map from names to strings.
  \<^verbatim>\<open>cfg.get(k)\<close> and \<^verbatim>\<open>os.environ.get(k)\<close> give \<^verbatim>\<open>None\<close> for a missing key.
\<close>

type_synonym cfg = "string \<rightharpoonup> pyval"
type_synonym environ = "string \<rightharpoonup> string"

definition cfg_get :: "cfg \<Rightarrow> string \<Rightarrow> pyval" where
  "cfg_get cfg k = (case cfg k of None \<Rightarrow> PNone | Some v \<Rightarrow> v)"

definition cfg_get_default :: "cfg \<Rightarrow> string \<Rightarrow> pyval \<Rightarrow> pyval" where
  "cfg_get_default cfg k d = (case cfg k of None \<Rightarrow> d | Some v \<Rightarrow> v)"

definition environ_get :: "environ \<Rightarrow> string \<Rightarrow> pyval" where
  "environ_get env k = (case env k of None \<Rightarrow> PNone | Some s \<Rightarrow> PStr s)"

text \<open>
  The service library's credential and client objects are handles: constructing one
  stores its arguments and performs no request. A key credential holds its key, a
  string: the constructor raises \<^verbatim>\<open>TypeError\<close> for any other value. The ambient
  identity credential is resolved by the library from the environment of the process
  (its own variables, not those this module reads): the handle holds the environment
  it was built in.
\<close>

datatype credential = DefaultAzureCredential environ | AzureKeyCredential string

definition new_AzureKeyCredential :: "pyval \<Rightarrow> exn + credential" where
  "new_AzureKeyCredential key =
     (case key of
        PStr s \<Rightarrow> Inr (AzureKeyCredential s)
      | _ \<Rightarrow> Inl (TypeError ''key must be a string.''))"

datatype face_client = FaceClient (fc_endpoint: pyval) (fc_credential: credential)

datatype admin_client =
  FaceAdministrationClient (ac_endpoint: pyval) (ac_credential: credential)

text \<open>The test of line 48 of \<^verbatim>\<open>create_clients\<close>, which selects the credential.\<close>

definition use_azure_ad :: "cfg \<Rightarrow> bool" where
  "use_azure_ad cfg =
     (cfg_get_default cfg ''auth_method'' (PStr ''Subscription Key'') = PStr ''Azure AD''
      \<or> truthy (cfg_get cfg ''use_managed_identity''))"

definition create_clients :: "environ \<Rightarrow> cfg \<Rightarrow> exn + (face_client \<times> admin_client)" where
  "create_clients env cfg =
     (let endpoint = py_or (cfg_get cfg ''endpoint'') (environ_get env ''FACE_ENDPOINT'') in
      if \<not> truthy endpoint
      then Inl (ValueError ''Endpoint not provided in cfg.endpoint or FACE_ENDPOINT env'')
      else if use_azure_ad cfg
      then (let cred = DefaultAzureCredential env
            in Inr (FaceClient endpoint cred, FaceAdministrationClient endpoint cred))
      else (let key = py_or (cfg_get cfg ''key'') (environ_get env ''FACE_KEY'') in
            if \<not> truthy key
            then Inl (ValueError ''Subscription key missing (cfg.key or FACE_KEY env)'')
            else (case new_AzureKeyCredential key of
                    Inl e \<Rightarrow> Inl e
                  | Inr cred \<Rightarrow>
                      Inr (FaceClient endpoint cred, FaceAdministrationClient endpoint cred))))"

section \<open>Attribute catalog\<close>

text \<open>The members of the service library's attribute enumeration that the module names.\<close>

datatype face_attribute =
    AGE | GENDER | EMOTION | GLASSES | HAIR | MAKEUP | FACIAL_HAIR | HEAD_POSE
  | OCCLUSION | ACCESSORIES | BLUR | EXPOSURE | NOISE | QUALITY_FOR_RECOGNITION | SMILE

definition ATTRIBUTE_MAP :: "(string \<times> face_attribute) list" where
  "ATTRIBUTE_MAP =
     [(''age'', AGE), (''gender'', GENDER), (''emotion'', EMOTION), (''glasses'', GLASSES),
      (''hair'', HAIR), (''makeup'', MAKEUP), (''facialHair'', FACIAL_HAIR),
      (''headPose'', HEAD_POSE), (''occlusion'', OCCLUSION), (''accessories'', ACCESSORIES),
      (''blur'', BLUR), (''exposure'', EXPOSURE), (''noise'', NOISE),
      (''qualityForRecognition'', QUALITY_FOR_RECOGNITION), (''smile'', SMILE)]"

text \<open>
  Lines 79 to 81 of \<^verbatim>\<open>detect_faces_sdk\<close>: the value of the local variable \<^verbatim>\<open>attrs\<close>.
  \<^verbatim>\<open>None\<close> and the empty list are both falsy, and leave \<^verbatim>\<open>attrs\<close> at \<^verbatim>\<open>None\<close>.
\<close>

definition detect_attrs :: "string list option \<Rightarrow> face_attribute list option" where
  "detect_attrs return_face_attributes =
     (case return_face_attributes of
        None \<Rightarrow> None
      | Some names \<Rightarrow>
          if names = [] then None
          else Some [the (map_of ATTRIBUTE_MAP a). a \<leftarrow> names, map_of ATTRIBUTE_MAP a \<noteq> None])"

section \<open>Result normalizer\<close>

text \<open>
  What \<^verbatim>\<open>_to_simple\<close> can observe of an object: the outcome of \<^verbatim>\<open>obj.as_dict()\<close>
  (a value, or the exception raised, \<^verbatim>\<open>AttributeError\<close> when there is no such method)
  and the outcome of \<^verbatim>\<open>str(obj)\<close> (a text, or the exception raised). The parser
  \<^verbatim>\<open>json.loads\<close> is the parameter \<open>loads\<close>. The last \<^verbatim>\<open>str(obj)\<close>, on line 69,
  stands in no \<^verbatim>\<open>try\<close>: what it raises leaves the function.
\<close>

datatype pyobj = PyObj (as_dict: "exn + pyval") (obj_str: "exn + string")

definition to_simple :: "(string \<Rightarrow> exn + pyval) \<Rightarrow> pyobj \<Rightarrow> exn + pyval" where
  "to_simple loads obj =
     (case as_dict obj of
        Inr d \<Rightarrow> Inr d
      | Inl _ \<Rightarrow>
          (case (case obj_str obj of Inl e \<Rightarrow> Inl e | Inr s \<Rightarrow> loads s) of
             Inr v \<Rightarrow> Inr v
           | Inl _ \<Rightarrow>
               (case obj_str obj of
                  Inl e \<Rightarrow> Inl e
                | Inr s \<Rightarrow> Inr (PStr s))))"

subsection \<open>Built-in values as objects\<close>

text \<open>
  \<^verbatim>\<open>repr\<close> and \<^verbatim>\<open>str\<close> of the built-in values depend on the interpreter: on its
  repr of floats (the shortest decimal text that reads back as the same float), on
  the limit it sets to the digits of an integer turned into text
  (\<^verbatim>\<open>sys.get_int_max_str_digits()\<close>, where 0 means no limit), beyond which the
  conversion raises \<^verbatim>\<open>ValueError\<close>, and on the number of nested calls it still allows,
  beyond which the repr of a nested value raises \<^verbatim>\<open>RecursionError\<close>.
\<close>

record interpreter =
  float_repr :: "real \<Rightarrow> string"
  max_str_digits :: nat
  recursion_budget :: nat

function nat_digits :: "nat \<Rightarrow> string" where
  "nat_digits n =
     (if n < 10 then [char_of (48 + n)] else nat_digits (n div 10) @ [char_of (48 + n mod 10)])"
  by pat_completeness auto
termination
  by (relation "measure id") auto

definition int_repr :: "interpreter \<Rightarrow> int \<Rightarrow> exn + string" where
  "int_repr I i =
     (let ds = nat_digits (nat \<bar>i\<bar>) in
      if max_str_digits I \<noteq> 0 \<and> max_str_digits I < length ds
      then Inl (ValueError (''Exceeds the limit ('' @ nat_digits (max_str_digits I)
                 @ '' digits) for integer string conversion; ''
                 @ ''use sys.set_int_max_str_digits() to increase the limit''))
      else Inr (if i < 0 then ''-'' @ ds else ds))"

fun join :: "string \<Rightarrow> string list \<Rightarrow> string" where
  "join sep [] = []"
| "join sep [x] = x"
| "join sep (x # y # ys) = x @ sep @ join sep (y # ys)"

definition recursion_error :: exn where
  "recursion_error =
     RecursionError ''maximum recursion depth exceeded while getting the repr of an object''"

fun py_repr :: "interpreter \<Rightarrow> nat \<Rightarrow> pyval \<Rightarrow> exn + string"
  and py_repr_list :: "interpreter \<Rightarrow> nat \<Rightarrow> pyval list \<Rightarrow> exn + string list"
  and py_repr_items :: "interpreter \<Rightarrow> nat \<Rightarrow> (string \<times> pyval) list \<Rightarrow> exn + string list" where
  "py_repr I 0 v = Inl recursion_error"
| "py_repr I (Suc d) PNone = Inr ''None''"
| "py_repr I (Suc d) (PBool b) = Inr (if b then ''True'' else ''False'')"
| "py_repr I (Suc d) (PInt i) = int_repr I i"
| "py_repr I (Suc d) (PFloat r) = Inr (float_repr I r)"
| "py_repr I (Suc d) (PStr s) = Inr (str_repr s)"
| "py_repr I (Suc d) (PList xs) =
     (case py_repr_list I d xs of
        Inl e \<Rightarrow> Inl e
      | Inr ts \<Rightarrow> Inr (''['' @ join '', '' ts @ '']''))"
| "py_repr I (Suc d) (PDict kvs) =
     (case py_repr_items I d kvs of
        Inl e \<Rightarrow> Inl e
      | Inr ts \<Rightarrow> Inr (''{'' @ join '', '' ts @ ''}''))"
| "py_repr_list I d [] = Inr []"
| "py_repr_list I d (x # xs) =
     (case py_repr I d x of
        Inl e \<Rightarrow> Inl e
      | Inr t \<Rightarrow> (case py_repr_list I d xs of Inl e \<Rightarrow> Inl e | Inr ts \<Rightarrow> Inr (t # ts)))"
| "py_repr_items I d [] = Inr []"
| "py_repr_items I d ((k, v) # kvs) =
     (case py_repr I d v of
        Inl e \<Rightarrow> Inl e
      | Inr t \<Rightarrow>
          (case py_repr_items I d kvs of
             Inl e \<Rightarrow> Inl e
           | Inr ts \<Rightarrow> Inr ((str_repr k @ '': '' @ t) # ts)))"

text \<open>\<^verbatim>\<open>str\<close> of a \<^verbatim>\<open>str\<close> is the text itself; of any other built-in value, its repr.\<close>

definition py_str :: "interpreter \<Rightarrow> pyval \<Rightarrow> exn + string" where
  "py_str I v = (case v of PStr s \<Rightarrow> Inr s | _ \<Rightarrow> py_repr I (recursion_budget I) v)"

fun type_name :: "pyval \<Rightarrow> string" where
  "type_name PNone = ''NoneType''"
| "type_name (PBool b) = ''bool''"
| "type_name (PInt i) = ''int''"
| "type_name (PFloat r) = ''float''"
| "type_name (PStr s) = ''str''"
| "type_name (PList xs) = ''list''"
| "type_name (PDict kvs) = ''dict''"

text \<open>A built-in value seen as an object: it has no \<^verbatim>\<open>as_dict\<close> attribute.\<close>

definition quoted :: "string \<Rightarrow> string" where
  "quoted s = [CHR 0x27] @ s @ [CHR 0x27]"

definition builtin_obj :: "interpreter \<Rightarrow> pyval \<Rightarrow> pyobj" where
  "builtin_obj I v =
     PyObj (Inl (AttributeError
               (quoted (type_name v) @ '' object has no attribute '' @ quoted ''as_dict'')))
           (py_str I v)"

text \<open>
  An interpreter with the default limit of 4300 digits and room for 1000 nested
  calls; its repr of floats is a stand-in, for examples that hold no float.
\<close>

definition no_float_repr :: "real \<Rightarrow> string" where
  "no_float_repr r = ''nan''"

definition default_interpreter :: interpreter where
  "default_interpreter =
     \<lparr>float_repr = no_float_repr, max_str_digits = 4300, recursion_budget = 1000\<rparr>"

subsection \<open>A JSON reader\<close>

text \<open>
  \<^verbatim>\<open>json.loads\<close> belongs to the standard library; \<open>to_simple\<close> takes it as a parameter.
  The reader below is used where a concrete parser is needed. It follows the
  library's decoder on JSON texts made of objects, arrays, strings with the
  two-character escapes, integers and the three literals, and it rejects every text
  that is not JSON. Fractions, exponents, \<^verbatim>\<open>\u\<close> escapes and the constants
  \<^verbatim>\<open>NaN\<close> and \<^verbatim>\<open>Infinity\<close> are outside it: on a text that holds one the reader
  answers with the decoding error where the library returns a value, and nothing
  below applies it to such a text.
\<close>

definition json_ws :: "char \<Rightarrow> bool" where
  "json_ws c = (c = CHR '' '' \<or> c = CHR 0x09 \<or> c = CHR 0x0A \<or> c = CHR 0x0D)"

fun skip_ws :: "string \<Rightarrow> string" where
  "skip_ws [] = []"
| "skip_ws (c # cs) = (if json_ws c then skip_ws cs else c # cs)"

definition json_unescape :: "char \<Rightarrow> char option" where
  "json_unescape c =
     (if c = CHR 0x22 then Some (CHR 0x22)
      else if c = CHR 0x5C then Some (CHR 0x5C)
      else if c = CHR ''/'' then Some (CHR ''/'')
      else if c = CHR ''b'' then Some (CHR 0x08)
      else if c = CHR ''f'' then Some (CHR 0x0C)
      else if c = CHR ''n'' then Some (CHR 0x0A)
      else if c = CHR ''r'' then Some (CHR 0x0D)
      else if c = CHR ''t'' then Some (CHR 0x09)
      else None)"

text \<open>The text after an opening double quote: the string's content and what follows it.\<close>

fun scan_string :: "string \<Rightarrow> (string \<times> string) option" where
  "scan_string [] = None"
| "scan_string (c # cs) =
     (if c = CHR 0x22 then Some ([], cs)
      else if c = CHR 0x5C then
        (case cs of
           [] \<Rightarrow> None
         | e # cs' \<Rightarrow>
             (case json_unescape e of
                None \<Rightarrow> None
              | Some ch \<Rightarrow>
                  (case scan_string cs' of
                     None \<Rightarrow> None
                   | Some (s, r) \<Rightarrow> Some (ch # s, r))))
      else if (of_char c :: nat) < 32 then None
      else (case scan_string cs of
              None \<Rightarrow> None
            | Some (s, r) \<Rightarrow> Some (c # s, r)))"

definition is_digit :: "char \<Rightarrow> bool" where
  "is_digit c = (48 \<le> (of_char c :: nat) \<and> (of_char c :: nat) \<le> 57)"

definition digits_val :: "string \<Rightarrow> nat" where
  "digits_val ds = foldl (\<lambda>a c. 10 * a + ((of_char c :: nat) - 48)) 0 ds"

text \<open>An integer: \<^verbatim>\<open>-?(0|[1-9][0-9]*)\<close>, not followed by a fraction or an exponent.\<close>

definition scan_int :: "string \<Rightarrow> (pyval \<times> string) option" where
  "scan_int s =
     (let neg = (s \<noteq> [] \<and> hd s = CHR ''-'');
          s1 = (if neg then tl s else s);
          ds = (if s1 \<noteq> [] \<and> hd s1 = CHR ''0'' then ''0'' else takeWhile is_digit s1);
          r = drop (length ds) s1
      in if ds = [] then None
         else if r \<noteq> [] \<and> (hd r = CHR ''.'' \<or> hd r = CHR ''e'' \<or> hd r = CHR ''E'') then None
         else Some (PInt (if neg then - int (digits_val ds) else int (digits_val ds)), r))"

text \<open>\<^verbatim>\<open>d[k] = v\<close> on an insertion-ordered dictionary.\<close>

fun dict_set :: "string \<Rightarrow> pyval \<Rightarrow> (string \<times> pyval) list \<Rightarrow> (string \<times> pyval) list" where
  "dict_set k v [] = [(k, v)]"
| "dict_set k v ((k', v') # kvs) =
     (if k' = k then (k, v) # kvs else (k', v') # dict_set k v kvs)"

text \<open>
  The decoder, by recursive descent. The first argument bounds the nesting depth;
  \<open>json_loads\<close> gives it twice the length of the text, which no text exhausts.
  \<open>parse_elems\<close> reads the elements of an array after its first bracket,
  \<open>parse_members\<close> the members of an object from the quote of a key on.
\<close>

fun parse_value :: "nat \<Rightarrow> string \<Rightarrow> (pyval \<times> string) option"
  and parse_elems :: "nat \<Rightarrow> string \<Rightarrow> (pyval list \<times> string) option"
  and parse_members :: "nat \<Rightarrow> string \<Rightarrow> ((string \<times> pyval) list \<times> string) option" where
  "parse_value 0 s = None"
| "parse_value (Suc n) s =
     (case s of
        [] \<Rightarrow> None
      | c # r \<Rightarrow>
          if c = CHR 0x22 then
            (case scan_string r of None \<Rightarrow> None | Some (t, r') \<Rightarrow> Some (PStr t, r'))
          else if c = CHR ''{'' then
            (case skip_ws r of
               [] \<Rightarrow> None
             | c' # r' \<Rightarrow>
                 if c' = CHR ''}'' then Some (PDict [], r')
                 else (case parse_members n (c' # r') of
                         None \<Rightarrow> None
                       | Some (kvs, r'') \<Rightarrow> Some (PDict (foldl (\<lambda>d (k, v). dict_set k v d) [] kvs), r'')))
          else if c = CHR ''['' then
            (case skip_ws r of
               [] \<Rightarrow> None
             | c' # r' \<Rightarrow>
                 if c' = CHR '']'' then Some (PList [], r')
                 else (case parse_elems n (c' # r') of
                         None \<Rightarrow> None
                       | Some (vs, r'') \<Rightarrow> Some (PList vs, r'')))
          else if take 4 s = ''null'' then Some (PNone, drop 4 s)
          else if take 4 s = ''true'' then Some (PBool True, drop 4 s)
          else if take 5 s = ''false'' then Some (PBool False, drop 5 s)
          else scan_int s)"
| "parse_elems 0 s = None"
| "parse_elems (Suc n) s =
     (case parse_value n s of
        None \<Rightarrow> None
      | Some (v, r) \<Rightarrow>
          (case skip_ws r of
             [] \<Rightarrow> None
           | c # r' \<Rightarrow>
               if c = CHR '']'' then Some ([v], r')
               else if c = CHR '','' then
                 (case parse_elems n (skip_ws r') of
                    None \<Rightarrow> None
                  | Some (vs, r'') \<Rightarrow> Some (v # vs, r''))
               else None))"
| "parse_members 0 s = None"
| "parse_members (Suc n) s =
     (case s of
        [] \<Rightarrow> None
      | q # r0 \<Rightarrow>
          if q \<noteq> CHR 0x22 then None
          else
            (case scan_string r0 of
               None \<Rightarrow> None
             | Some (k, r1) \<Rightarrow>
                 (case skip_ws r1 of
                    [] \<Rightarrow> None
                  | c # r2 \<Rightarrow>
                      if c \<noteq> CHR '':'' then None
                      else
                        (case parse_value n (skip_ws r2) of
                           None \<Rightarrow> None
                         | Some (v, r3) \<Rightarrow>
                             (case skip_ws r3 of
                                [] \<Rightarrow> None
                              | c' # r4 \<Rightarrow>
                                  if c' = CHR ''}'' then Some ([(k, v)], r4)
                                  else if c' = CHR '','' then
                                    (case parse_members n (skip_ws r4) of
                                       None \<Rightarrow> None
                                     | Some (kvs, r5) \<Rightarrow> Some ((k, v) # kvs, r5))
                                  else None)))))"

definition json_loads :: "string \<Rightarrow> exn + pyval" where
  "json_loads s =
     (case parse_value (2 * length s + 2) (skip_ws s) of
        None \<Rightarrow> Inl (JSONDecodeError ''Expecting value'')
      | Some (v, r) \<Rightarrow>
          if skip_ws r = [] then Inr v else Inl (JSONDecodeError ''Extra data''))"

section \<open>The service library\<close>

datatype face_detection_model = DETECTION01 | DETECTION02 | DETECTION03

datatype face_recognition_model = RECOGNITION01 | RECOGNITION02 | RECOGNITION03 | RECOGNITION04

definition DEFAULT_DETECTION_MODEL :: face_detection_model where
  "DEFAULT_DETECTION_MODEL = DETECTION03"

definition DEFAULT_RECOGNITION_MODEL :: face_recognition_model where
  "DEFAULT_RECOGNITION_MODEL = RECOGNITION04"

text \<open>The keyword arguments that both detect calls of the library receive.\<close>

record detect_options =
  detection_model :: face_detection_model
  recognition_model :: face_recognition_model
  return_face_id :: bool
  return_face_landmarks :: bool
  return_face_attributes :: "face_attribute list option"

datatype poller = Poller nat

text \<open>
  The methods of the two clients that the module calls. Each is a request to the
  remote service: it reads and changes the state \<open>'w\<close> of the world outside the
  program, and either returns its result or raises.
\<close>

record 'w face_sdk =
  detect_from_url ::
    "face_client \<Rightarrow> string \<Rightarrow> detect_options \<Rightarrow> 'w \<Rightarrow> (exn + pyobj list) \<times> 'w"
  detect_from_stream ::
    "face_client \<Rightarrow> bytes \<Rightarrow> detect_options \<Rightarrow> 'w \<Rightarrow> (exn + pyobj list) \<times> 'w"
  verify_face_to_face ::
    "face_client \<Rightarrow> string \<Rightarrow> string \<Rightarrow> 'w \<Rightarrow> (exn + pyobj) \<times> 'w"
  identify_from_large_person_group ::
    "face_client \<Rightarrow> string list \<Rightarrow> string \<Rightarrow> int \<Rightarrow> real \<Rightarrow> 'w \<Rightarrow> (exn + pyobj list) \<times> 'w"
  large_person_group_create ::
    "admin_client \<Rightarrow> string \<Rightarrow> string \<Rightarrow> face_recognition_model \<Rightarrow> 'w \<Rightarrow> (exn + unit) \<times> 'w"
  large_person_group_list ::
    "admin_client \<Rightarrow> 'w \<Rightarrow> (exn + pyobj list) \<times> 'w"
  large_person_group_add_face_from_stream ::
    "admin_client \<Rightarrow> string \<Rightarrow> string \<Rightarrow> bytes \<Rightarrow> face_detection_model \<Rightarrow> 'w
       \<Rightarrow> (exn + pyobj) \<times> 'w"
  large_person_group_begin_train ::
    "admin_client \<Rightarrow> string \<Rightarrow> int \<Rightarrow> 'w \<Rightarrow> (exn + poller) \<times> 'w"
  poller_wait ::
    "poller \<Rightarrow> 'w \<Rightarrow> (exn + unit) \<times> 'w"

text \<open>\<^verbatim>\<open>io.BytesIO(img_bytes)\<close>: the stream's content; \<^verbatim>\<open>None\<close> gives an empty stream.\<close>

definition BytesIO :: "bytes option \<Rightarrow> bytes" where
  "BytesIO img_bytes = (case img_bytes of None \<Rightarrow> [] | Some b \<Rightarrow> b)"

text \<open>Truthiness of an optional string argument.\<close>

definition given :: "string option \<Rightarrow> bool" where
  "given url = (case url of None \<Rightarrow> False | Some u \<Rightarrow> u \<noteq> [])"

definition url_text :: "string option \<Rightarrow> string" where
  "url_text url = (case url of None \<Rightarrow> [] | Some u \<Rightarrow> u)"

text \<open>A list comprehension or loop whose body may raise: the first exception ends it.\<close>

fun map_result :: "('a \<Rightarrow> exn + 'b) \<Rightarrow> 'a list \<Rightarrow> exn + 'b list" where
  "map_result f [] = Inr []"
| "map_result f (x # xs) =
     (case f x of
        Inl e \<Rightarrow> Inl e
      | Inr y \<Rightarrow> (case map_result f xs of Inl e \<Rightarrow> Inl e | Inr ys \<Rightarrow> Inr (y # ys)))"

section \<open>Face operations\<close>

text \<open>The body of the conversion loop of \<^verbatim>\<open>detect_faces_sdk\<close> (lines 104 to 108).\<close>

definition face_to_dict :: "(string \<Rightarrow> exn + pyval) \<Rightarrow> pyobj \<Rightarrow> exn + pyval" where
  "face_to_dict loads f =
     (case as_dict f of
        Inr d \<Rightarrow> Inr d
      | Inl _ \<Rightarrow> to_simple loads f)"

definition detect_faces_sdk ::
  "'w face_sdk \<Rightarrow> (string \<Rightarrow> exn + pyval) \<Rightarrow> environ \<Rightarrow> cfg \<Rightarrow> bytes option \<Rightarrow> string option
     \<Rightarrow> bool \<Rightarrow> face_detection_model \<Rightarrow> face_recognition_model \<Rightarrow> string list option
     \<Rightarrow> 'w \<Rightarrow> (exn + pyval list) \<times> 'w" where
  "detect_faces_sdk sdk loads env cfg img_bytes url return_landmarks det_model rec_model
       return_attrs w =
     (case create_clients env cfg of
        Inl e \<Rightarrow> (Inl e, w)
      | Inr (client, _) \<Rightarrow>
          (let attrs = detect_attrs return_attrs;
               opts = \<lparr>detection_model = det_model, recognition_model = rec_model,
                        return_face_id = True, return_face_landmarks = return_landmarks,
                        return_face_attributes = attrs\<rparr>;
               (res, w') = (if given url
                            then detect_from_url sdk client (url_text url) opts w
                            else detect_from_stream sdk client (BytesIO img_bytes) opts w)
           in case res of
                Inl e \<Rightarrow> (Inl e, w')
              | Inr faces \<Rightarrow> (map_result (face_to_dict loads) faces, w')))"


definition identify_sdk ::
  "'w face_sdk \<Rightarrow> environ \<Rightarrow> cfg \<Rightarrow> string list \<Rightarrow> string \<Rightarrow> int \<Rightarrow> real
     \<Rightarrow> 'w \<Rightarrow> (exn + pyval list) \<times> 'w" where
  "identify_sdk sdk env cfg face_ids large_person_group_id max_candidates confidence_threshold w =
     (case create_clients env cfg of
        Inl e \<Rightarrow> (Inl e, w)
      | Inr (client, _) \<Rightarrow>
          (let (res, w') = identify_from_large_person_group sdk client face_ids
                             large_person_group_id max_candidates confidence_threshold w
           in case res of
                Inl e \<Rightarrow> (Inl e, w')
              | Inr rs \<Rightarrow> (map_result as_dict rs, w')))"


definition list_large_person_groups_sdk ::
  "'w face_sdk \<Rightarrow> environ \<Rightarrow> cfg \<Rightarrow> 'w \<Rightarrow> (exn + pyval list) \<times> 'w" where
  "list_large_person_groups_sdk sdk env cfg w =
     (case create_clients env cfg of
        Inl e \<Rightarrow> (Inl e, w)
      | Inr (_, admin) \<Rightarrow>
          (let (res, w') = large_person_group_list sdk admin w
           in case res of
                Inl e \<Rightarrow> (Inl e, w')
              | Inr groups \<Rightarrow> (map_result as_dict groups, w')))"



section \<open>Capability prober\<close>

record capability_report =
  detect_basic :: bool
  detect_attributes :: bool
  largePersonGroup :: bool
  errors :: "string list"

text \<open>A detect call of the prober: every argument it does not name has its default.\<close>

definition probe_detect ::
  "'w face_sdk \<Rightarrow> (string \<Rightarrow> exn + pyval) \<Rightarrow> environ \<Rightarrow> cfg \<Rightarrow> bytes option \<Rightarrow> string option
     \<Rightarrow> string list option \<Rightarrow> 'w \<Rightarrow> (exn + pyval list) \<times> 'w" where
  "probe_detect sdk loads env cfg img_bytes url return_attrs w =
     detect_faces_sdk sdk loads env cfg img_bytes url False
       DEFAULT_DETECTION_MODEL DEFAULT_RECOGNITION_MODEL return_attrs w"

text \<open>Lines 186 to 202 of \<^verbatim>\<open>probe_endpoint\<close>: the basic detection check.\<close>

definition probe_detect_basic ::
  "'w face_sdk \<Rightarrow> (string \<Rightarrow> exn + pyval) \<Rightarrow> environ \<Rightarrow> cfg \<Rightarrow> string option
     \<Rightarrow> capability_report \<Rightarrow> 'w \<Rightarrow> capability_report \<times> 'w" where
  "probe_detect_basic sdk loads env cfg test_image_url result w =
     (let (res, w1) = (if given test_image_url
                       then probe_detect sdk loads env cfg None test_image_url None w
                       else probe_detect sdk loads env cfg (Some [0]) None None w)
      in case res of
           Inl e \<Rightarrow>
             if given test_image_url
             then (let (res2, w2) = probe_detect sdk loads env cfg None test_image_url None w1
                   in case res2 of
                        Inl e2 \<Rightarrow>
                          (result\<lparr>errors := errors result @ [''detect_basic error: '' @ repr_exn e2]\<rparr>, w2)
                      | Inr _ \<Rightarrow> (result\<lparr>detect_basic := True\<rparr>, w2))
             else (result\<lparr>errors := errors result @ [''detect_basic error: '' @ repr_exn e]\<rparr>, w1)
         | Inr _ \<Rightarrow> (result\<lparr>detect_basic := True\<rparr>, w1))"

text \<open>Lines 204 to 221: the attribute check, entered when the basic check succeeded.\<close>

definition probe_detect_attributes ::
  "'w face_sdk \<Rightarrow> (string \<Rightarrow> exn + pyval) \<Rightarrow> environ \<Rightarrow> cfg \<Rightarrow> string option
     \<Rightarrow> capability_report \<Rightarrow> 'w \<Rightarrow> capability_report \<times> 'w" where
  "probe_detect_attributes sdk loads env cfg test_image_url result w =
     (if detect_basic result
      then (let attrs = [''age'', ''gender''] in
            if given test_image_url
            then (let (res, w1) = probe_detect sdk loads env cfg None test_image_url (Some attrs) w
                  in case res of
                       Inl e \<Rightarrow>
                         (result\<lparr>errors := errors result @ [''detect_attributes error: '' @ repr_exn e],
                                 detect_attributes := False\<rparr>, w1)
                     | Inr _ \<Rightarrow> (result\<lparr>detect_attributes := True\<rparr>, w1))
            else (result\<lparr>detect_attributes := True\<rparr>, w))
      else (result, w))"

text \<open>Lines 223 to 232: the large person group check.\<close>

definition probe_large_person_group ::
  "'w face_sdk \<Rightarrow> environ \<Rightarrow> cfg \<Rightarrow> capability_report \<Rightarrow> 'w \<Rightarrow> capability_report \<times> 'w" where
  "probe_large_person_group sdk env cfg result w =
     (let (res, w1) = list_large_person_groups_sdk sdk env cfg w
      in case res of
           Inl e \<Rightarrow>
             (result\<lparr>errors := errors result @ [''largePersonGroup error: '' @ repr_exn e],
                     largePersonGroup := False\<rparr>, w1)
         | Inr groups \<Rightarrow> (result\<lparr>largePersonGroup := True\<rparr>, w1))"

text \<open>The report that \<^verbatim>\<open>probe_endpoint\<close> starts from.\<close>

definition initial_report :: capability_report where
  "initial_report =
     \<lparr>detect_basic = False, detect_attributes = False, largePersonGroup = False, errors = []\<rparr>"

definition probe_endpoint ::
  "'w face_sdk \<Rightarrow> (string \<Rightarrow> exn + pyval) \<Rightarrow> environ \<Rightarrow> cfg \<Rightarrow> string option
     \<Rightarrow> 'w \<Rightarrow> (exn + capability_report) \<times> 'w" where
  "probe_endpoint sdk loads env cfg test_image_url w =
     (let result = initial_report;
          (result, w) = probe_detect_basic sdk loads env cfg test_image_url result w;
          (result, w) = probe_detect_attributes sdk loads env cfg test_image_url result w;
          (result, w) = probe_large_person_group sdk env cfg result w
      in (Inr result, w))"

section \<open>Observing the requests\<close>

text \<open>
  The requests a run sends are observed by recording them: \<open>logged sdk\<close> behaves as
  \<open>sdk\<close> and appends every call, with its arguments, to a log kept beside the
  state of the world.
\<close>

datatype sdk_call =
    DetectFromUrl face_client string detect_options
  | DetectFromStream face_client bytes detect_options
  | VerifyFaceToFace face_client string string
  | Identify face_client "string list" string int real
  | GroupCreate admin_client string string face_recognition_model
  | GroupList admin_client
  | GroupAddFace admin_client string string bytes face_detection_model
  | GroupBeginTrain admin_client string int
  | PollerWait poller

definition record_call :: "sdk_call \<Rightarrow> ('w \<Rightarrow> 'a \<times> 'w) \<Rightarrow> 'w \<times> sdk_call list \<Rightarrow> 'a \<times> ('w \<times> sdk_call list)" where
  "record_call c f s = (case f (fst s) of (r, w') \<Rightarrow> (r, (w', snd s @ [c])))"

definition logged :: "'w face_sdk \<Rightarrow> ('w \<times> sdk_call list) face_sdk" where
  "logged sdk =
     \<lparr>detect_from_url = (\<lambda>c u opts. record_call (DetectFromUrl c u opts) (detect_from_url sdk c u opts)),
      detect_from_stream = (\<lambda>c b opts. record_call (DetectFromStream c b opts) (detect_from_stream sdk c b opts)),
      verify_face_to_face = (\<lambda>c f1 f2. record_call (VerifyFaceToFace c f1 f2) (verify_face_to_face sdk c f1 f2)),
      identify_from_large_person_group = (\<lambda>c fs g m t.
         record_call (Identify c fs g m t) (identify_from_large_person_group sdk c fs g m t)),
      large_person_group_create = (\<lambda>a g n m.
         record_call (GroupCreate a g n m) (large_person_group_create sdk a g n m)),
      large_person_group_list = (\<lambda>a. record_call (GroupList a) (large_person_group_list sdk a)),
      large_person_group_add_face_from_stream = (\<lambda>a g p b m.
         record_call (GroupAddFace a g p b m) (large_person_group_add_face_from_stream sdk a g p b m)),
      large_person_group_begin_train = (\<lambda>a g i.
         record_call (GroupBeginTrain a g i) (large_person_group_begin_train sdk a g i)),
      poller_wait = (\<lambda>p. record_call (PollerWait p) (poller_wait sdk p))\<rparr>"

text \<open>A detect request that asks for attributes.\<close>

fun attribute_request :: "sdk_call \<Rightarrow> bool" where
  "attribute_request (DetectFromUrl c u opts) = (return_face_attributes opts \<noteq> None)"
| "attribute_request (DetectFromStream c b opts) = (return_face_attributes opts \<noteq> None)"
| "attribute_request _ = False"

text \<open>The identifiers a detect call requests: none when \<^verbatim>\<open>attrs\<close> is \<^verbatim>\<open>None\<close>.\<close>

definition attr_ids :: "face_attribute list option \<Rightarrow> face_attribute list" where
  "attr_ids attrs = (case attrs of None \<Rightarrow> [] | Some ids \<Rightarrow> ids)"

subsection \<open>Example services\<close>

text \<open>A service that cannot be reached: every request raises.\<close>

definition connect_error :: exn where
  "connect_error = OtherException ''ServiceRequestError'' ''connection refused''"

definition unreachable_sdk :: "unit face_sdk" where
  "unreachable_sdk =
     \<lparr>detect_from_url = (\<lambda>c u opts w. (Inl connect_error, w)),
      detect_from_stream = (\<lambda>c b opts w. (Inl connect_error, w)),
      verify_face_to_face = (\<lambda>c f1 f2 w. (Inl connect_error, w)),
      identify_from_large_person_group = (\<lambda>c fs g m t w. (Inl connect_error, w)),
      large_person_group_create = (\<lambda>a g n m w. (Inl connect_error, w)),
      large_person_group_list = (\<lambda>a w. (Inl connect_error, w)),
      large_person_group_add_face_from_stream = (\<lambda>a g p b m w. (Inl connect_error, w)),
      large_person_group_begin_train = (\<lambda>a g i w. (Inl connect_error, w)),
      poller_wait = (\<lambda>p w. (Inl connect_error, w))\<rparr>"

text \<open>
  A deployment without the attribute feature: detection from a URL finds no face
  and is refused when attributes are requested, an image that is no image is
  rejected, and the list of groups is empty.
\<close>

definition basic_only_sdk :: "unit face_sdk" where
  "basic_only_sdk =
     unreachable_sdk
       \<lparr>detect_from_url := (\<lambda>c u opts w.
           (if return_face_attributes opts = None then Inr []
            else Inl (HttpResponseError ''(403) feature not available''), w)),
        detect_from_stream := (\<lambda>c b opts w. (Inl (HttpResponseError ''(400) invalid image''), w)),
        large_person_group_list := (\<lambda>a w. (Inr [], w))\<rparr>"

text \<open>A service that accepts every detect request and finds no face.\<close>

definition accepting_sdk :: "unit face_sdk" where
  "accepting_sdk =
     unreachable_sdk
       \<lparr>detect_from_url := (\<lambda>c u opts w. (Inr [], w)),
        detect_from_stream := (\<lambda>c b opts w. (Inr [], w)),
        large_person_group_list := (\<lambda>a w. (Inr [], w))\<rparr>"

text \<open>
  A client whose identification answers with one result for the face, holding
  three candidates of confidence 0.3, 0.9 and 0.6 in that order.
\<close>

definition candidate :: "string \<Rightarrow> real \<Rightarrow> pyval" where
  "candidate person_id confidence =
     PDict [(''personId'', PStr person_id), (''confidence'', PFloat confidence)]"

definition three_candidates :: pyval where
  "three_candidates =
     PDict [(''faceId'', PStr ''f1''),
            (''candidates'', PList [candidate ''p1'' 0.3, candidate ''p2'' 0.9, candidate ''p3'' 0.6])]"

definition three_candidates_sdk :: "unit face_sdk" where
  "three_candidates_sdk =
     unreachable_sdk
       \<lparr>identify_from_large_person_group := (\<lambda>c fs g m t w.
           (Inr [PyObj (Inr three_candidates) (Inr ''<FaceIdentificationResult>'')], w))\<rparr>"

text \<open>The confidences of the candidates of one identification result, in order.\<close>

fun confidence_of :: "pyval \<Rightarrow> real option" where
  "confidence_of (PDict c) =
     (case map_of c ''confidence'' of Some (PFloat r) \<Rightarrow> Some r | _ \<Rightarrow> None)"
| "confidence_of _ = None"

fun candidate_confidences :: "pyval \<Rightarrow> real list" where
  "candidate_confidences (PDict d) =
     (case map_of d ''candidates'' of
        Some (PList cs) \<Rightarrow> List.map_filter confidence_of cs
      | _ \<Rightarrow> [])"
| "candidate_confidences _ = []"

text \<open>
  The identification result as the specification words it: the candidates at or
  above the threshold, by descending confidence, cut to the maximum count.
\<close>

definition spec_identification :: "nat \<Rightarrow> real \<Rightarrow> real list \<Rightarrow> real list" where
  "spec_identification max_candidates threshold confidences =
     take max_candidates (rev (sort (filter (\<lambda>c. threshold \<le> c) confidences)))"

text \<open>Example configurations.\<close>

definition key_cfg :: cfg where
  "key_cfg = [''endpoint'' \<mapsto> PStr ''https://face.example'', ''key'' \<mapsto> PStr ''k'']"

definition no_key_cfg :: cfg where
  "no_key_cfg = [''endpoint'' \<mapsto> PStr ''https://unreachable.invalid'']"

text \<open>A configuration that names an authentication method the module does not know.\<close>

definition unknown_auth_cfg :: cfg where
  "unknown_auth_cfg =
     [''endpoint'' \<mapsto> PStr ''https://face.example'', ''auth_method'' \<mapsto> PStr ''OAuth'',
      ''key'' \<mapsto> PStr ''k'']"

section \<open>The calls of a probe run\<close>

text \<open>Whether a call returned, rather than raised.\<close>

definition returned :: "exn + 'a \<Rightarrow> bool" where
  "returned res = (case res of Inl _ \<Rightarrow> False | Inr _ \<Rightarrow> True)"

text \<open>
  The call that decides the basic check, with the state of the world it leaves: the
  detect call of line 189 or, when that raised and a URL is given, the second call,
  of line 195.
\<close>

definition basic_check ::
  "'w face_sdk \<Rightarrow> (string \<Rightarrow> exn + pyval) \<Rightarrow> environ \<Rightarrow> cfg \<Rightarrow> string option
     \<Rightarrow> 'w \<Rightarrow> (exn + pyval list) \<times> 'w" where
  "basic_check sdk loads env cfg url w =
     (if given url
      then (case probe_detect sdk loads env cfg None url None w of
              (Inl e, w1) \<Rightarrow> probe_detect sdk loads env cfg None url None w1
            | (Inr faces, w1) \<Rightarrow> (Inr faces, w1))
      else probe_detect sdk loads env cfg (Some [0]) None None w)"

text \<open>The attribute call of line 210, in the state that the basic check leaves.\<close>

definition attribute_check ::
  "'w face_sdk \<Rightarrow> (string \<Rightarrow> exn + pyval) \<Rightarrow> environ \<Rightarrow> cfg \<Rightarrow> string option
     \<Rightarrow> 'w \<Rightarrow> (exn + pyval list) \<times> 'w" where
  "attribute_check sdk loads env cfg url w =
     probe_detect sdk loads env cfg None url (Some [''age'', ''gender''])
       (snd (basic_check sdk loads env cfg url w))"

text \<open>
  The listing of line 225, in the state that the earlier checks leave: that of the
  attribute call when it was made, and else that of the basic check.
\<close>

definition group_check ::
  "'w face_sdk \<Rightarrow> (string \<Rightarrow> exn + pyval) \<Rightarrow> environ \<Rightarrow> cfg \<Rightarrow> string option
     \<Rightarrow> 'w \<Rightarrow> (exn + pyval list) \<times> 'w" where
  "group_check sdk loads env cfg url w =
     list_large_person_groups_sdk sdk env cfg
       (if returned (fst (basic_check sdk loads env cfg url w)) \<and> given url
        then snd (attribute_check sdk loads env cfg url w)
        else snd (basic_check sdk loads env cfg url w))"

text \<open>The entry that a check writes to the report's errors when its call raised.\<close>

definition error_entries :: "string \<Rightarrow> exn + 'a \<Rightarrow> string list" where
  "error_entries check res =
     (case res of Inl e \<Rightarrow> [check @ '' error: '' @ repr_exn e] | Inr _ \<Rightarrow> [])"

section \<open>The clients of a request\<close>


section \<open>Further examples\<close>

text \<open>An object without \<^verbatim>\<open>as_dict\<close> whose \<^verbatim>\<open>__str__\<close> raises.\<close>

definition unprintable_obj :: pyobj where
  "unprintable_obj =
     PyObj (Inl (AttributeError ''as_dict'')) (Inl (OtherException ''RuntimeError'' ''no text''))"

text \<open>An integer of 4301 digits.\<close>

definition big_int :: int where
  "big_int = 10 ^ 4300"

text \<open>Configurations: a key that is no string, and the identity mode with and without endpoint.\<close>

definition int_key_cfg :: cfg where
  "int_key_cfg = [''endpoint'' \<mapsto> PStr ''https://face.example'', ''key'' \<mapsto> PInt 123]"

definition azure_ad_cfg :: cfg where
  "azure_ad_cfg =
     [''endpoint'' \<mapsto> PStr ''https://face.example'', ''auth_method'' \<mapsto> PStr ''Azure AD'']"

definition azure_ad_no_endpoint_cfg :: cfg where
  "azure_ad_no_endpoint_cfg = [''auth_method'' \<mapsto> PStr ''Azure AD'']"


section \<open>Auxiliary facts\<close>

lemma logged_simps:
  "detect_from_url (logged sdk) c u opts s
     = record_call (DetectFromUrl c u opts) (detect_from_url sdk c u opts) s"
  "detect_from_stream (logged sdk) c b opts s
     = record_call (DetectFromStream c b opts) (detect_from_stream sdk c b opts) s"
  "identify_from_large_person_group (logged sdk) c fs g m t s
     = record_call (Identify c fs g m t) (identify_from_large_person_group sdk c fs g m t) s"
  "large_person_group_list (logged sdk) a s
     = record_call (GroupList a) (large_person_group_list sdk a) s"
  "verify_face_to_face (logged sdk) c f1 f2 s
     = record_call (VerifyFaceToFace c f1 f2) (verify_face_to_face sdk c f1 f2) s"
  "large_person_group_create (logged sdk) a g n rm s
     = record_call (GroupCreate a g n rm) (large_person_group_create sdk a g n rm) s"
  "large_person_group_add_face_from_stream (logged sdk) a g pid img dm s
     = record_call (GroupAddFace a g pid img dm)
         (large_person_group_add_face_from_stream sdk a g pid img dm) s"
  "large_person_group_begin_train (logged sdk) a g i s
     = record_call (GroupBeginTrain a g i) (large_person_group_begin_train sdk a g i) s"
  "poller_wait (logged sdk) po s = record_call (PollerWait po) (poller_wait sdk po) s"
  by (simp_all add: logged_def)

lemma map_result_all:
  "map f xs = map Inr ys \<Longrightarrow> map_result f xs = Inr ys"
  by (induction xs arbitrary: ys) auto

lemma create_clients_key_cfg:
  "create_clients Map.empty key_cfg
     = Inr (FaceClient (PStr ''https://face.example'') (AzureKeyCredential ''k''),
            FaceAdministrationClient (PStr ''https://face.example'') (AzureKeyCredential ''k''))"
  by (simp add: key_cfg_def create_clients_def use_azure_ad_def cfg_get_def cfg_get_default_def
        environ_get_def py_or_def new_AzureKeyCredential_def Let_def)


section \<open>Properties of the client factory\<close>

text \<open>
  Claim C4. With neither \<^verbatim>\<open>FACE_ENDPOINT\<close> nor \<^verbatim>\<open>FACE_KEY\<close> in the environment,
  building clients from the empty configuration raises the configuration error
  (a \<^verbatim>\<open>ValueError\<close>); building from an endpoint and the mode \<^verbatim>\<open>ApiKey\<close> without a
  key raises it too; and building from an endpoint, the mode \<^verbatim>\<open>ApiKey\<close> and a
  non-empty key returns the pair of the operational and the administrative client,
  both on that endpoint with that key.
\<close>

theorem create_clients_validation:
  assumes "env ''FACE_ENDPOINT'' = None" and "env ''FACE_KEY'' = None"
  shows "create_clients env Map.empty
           = Inl (ValueError ''Endpoint not provided in cfg.endpoint or FACE_ENDPOINT env'')
       \<and> (e \<noteq> [] \<longrightarrow>
            create_clients env [''endpoint'' \<mapsto> PStr e, ''auth_method'' \<mapsto> PStr ''ApiKey'']
              = Inl (ValueError ''Subscription key missing (cfg.key or FACE_KEY env)''))
       \<and> (e \<noteq> [] \<and> k \<noteq> [] \<longrightarrow>
            create_clients env
                [''endpoint'' \<mapsto> PStr e, ''auth_method'' \<mapsto> PStr ''ApiKey'', ''key'' \<mapsto> PStr k]
              = Inr (FaceClient (PStr e) (AzureKeyCredential k),
                     FaceAdministrationClient (PStr e) (AzureKeyCredential k)))"
  using assms
  by (simp add: create_clients_def use_azure_ad_def cfg_get_def cfg_get_default_def
        environ_get_def py_or_def new_AzureKeyCredential_def Let_def)

theorem create_clients_validation_witness:
  "create_clients Map.empty Map.empty
     = Inl (ValueError ''Endpoint not provided in cfg.endpoint or FACE_ENDPOINT env'')
   \<and> create_clients Map.empty [''endpoint'' \<mapsto> PStr ''e'', ''auth_method'' \<mapsto> PStr ''ApiKey'']
       = Inl (ValueError ''Subscription key missing (cfg.key or FACE_KEY env)'')
   \<and> create_clients Map.empty
         [''endpoint'' \<mapsto> PStr ''e'', ''auth_method'' \<mapsto> PStr ''ApiKey'', ''key'' \<mapsto> PStr ''k'']
       = Inr (FaceClient (PStr ''e'') (AzureKeyCredential ''k''),
              FaceAdministrationClient (PStr ''e'') (AzureKeyCredential ''k''))"
  using create_clients_validation [of Map.empty "''e''" "''k''"] by simp


text \<open>
  Claim C10, as the code has it. For every configuration whose endpoint is resolved,
  \<open>create_clients\<close> builds both clients on the ambient identity credential exactly
  when \<^verbatim>\<open>auth_method\<close> equals \<^verbatim>\<open>"Azure AD"\<close> or \<^verbatim>\<open>use_managed_identity\<close> is truthy.
  Every other value of \<^verbatim>\<open>auth_method\<close>, an unknown string or an absent field included,
  takes the subscription-key path: a missing key is reported, a key that is no
  string is refused by the credential, and a non-empty string key gives both clients
  on that key. On this path the result does not depend on the value of
  \<^verbatim>\<open>auth_method\<close>, and the only errors are these two: no authentication method is
  rejected as invalid.
\<close>

theorem create_clients_auth_selection:
  assumes "truthy (py_or (cfg_get cfg ''endpoint'') (environ_get env ''FACE_ENDPOINT''))"
  shows "((\<exists>ep. create_clients env cfg
                 = Inr (FaceClient ep (DefaultAzureCredential env),
                        FaceAdministrationClient ep (DefaultAzureCredential env)))
          \<longleftrightarrow> (cfg_get_default cfg ''auth_method'' (PStr ''Subscription Key'') = PStr ''Azure AD''
               \<or> truthy (cfg_get cfg ''use_managed_identity'')))
       \<and> (\<not> (cfg_get_default cfg ''auth_method'' (PStr ''Subscription Key'') = PStr ''Azure AD''
               \<or> truthy (cfg_get cfg ''use_managed_identity''))
          \<longrightarrow> (let ep = py_or (cfg_get cfg ''endpoint'') (environ_get env ''FACE_ENDPOINT'');
                    key = py_or (cfg_get cfg ''key'') (environ_get env ''FACE_KEY'')
                in (\<not> truthy key \<longrightarrow>
                      create_clients env cfg
                        = Inl (ValueError ''Subscription key missing (cfg.key or FACE_KEY env)''))
                 \<and> (\<forall>s. key = PStr s \<and> s \<noteq> [] \<longrightarrow>
                      create_clients env cfg
                        = Inr (FaceClient ep (AzureKeyCredential s),
                               FaceAdministrationClient ep (AzureKeyCredential s)))
                 \<and> (truthy key \<and> (\<forall>s. key \<noteq> PStr s) \<longrightarrow>
                      create_clients env cfg = Inl (TypeError ''key must be a string.'')))
              \<and> (\<forall>v. v \<noteq> PStr ''Azure AD'' \<longrightarrow>
                    create_clients env (cfg(''auth_method'' \<mapsto> v)) = create_clients env cfg)
              \<and> create_clients env (cfg(''auth_method'' := None)) = create_clients env cfg
              \<and> (\<forall>x. create_clients env cfg = Inl x \<longrightarrow>
                    x = ValueError ''Subscription key missing (cfg.key or FACE_KEY env)''
                    \<or> x = TypeError ''key must be a string.''))"
proof (intro conjI impI)
  show "(\<exists>ep. create_clients env cfg
                 = Inr (FaceClient ep (DefaultAzureCredential env),
                        FaceAdministrationClient ep (DefaultAzureCredential env)))
          \<longleftrightarrow> (cfg_get_default cfg ''auth_method'' (PStr ''Subscription Key'') = PStr ''Azure AD''
               \<or> truthy (cfg_get cfg ''use_managed_identity''))"
    using assms
    by (auto simp add: create_clients_def use_azure_ad_def new_AzureKeyCredential_def Let_def
          split: pyval.splits)
next
  assume n: "\<not> (cfg_get_default cfg ''auth_method'' (PStr ''Subscription Key'') = PStr ''Azure AD''
               \<or> truthy (cfg_get cfg ''use_managed_identity''))"
  then have u: "\<not> use_azure_ad cfg"
    by (simp add: use_azure_ad_def)
  have u': "\<not> use_azure_ad (cfg(''auth_method'' \<mapsto> v))" if "v \<noteq> PStr ''Azure AD''" for v
    using n that by (simp add: use_azure_ad_def cfg_get_def cfg_get_default_def)
  have u'': "\<not> use_azure_ad (cfg(''auth_method'' := None))"
    using n by (simp add: use_azure_ad_def cfg_get_def cfg_get_default_def)
  have g: "cfg_get (cfg(''auth_method'' := z)) ''endpoint'' = cfg_get cfg ''endpoint''"
          "cfg_get (cfg(''auth_method'' := z)) ''key'' = cfg_get cfg ''key''" for z
    by (simp_all add: cfg_get_def)
  show "let ep = py_or (cfg_get cfg ''endpoint'') (environ_get env ''FACE_ENDPOINT'');
            key = py_or (cfg_get cfg ''key'') (environ_get env ''FACE_KEY'')
        in (\<not> truthy key \<longrightarrow>
              create_clients env cfg
                = Inl (ValueError ''Subscription key missing (cfg.key or FACE_KEY env)''))
         \<and> (\<forall>s. key = PStr s \<and> s \<noteq> [] \<longrightarrow>
              create_clients env cfg
                = Inr (FaceClient ep (AzureKeyCredential s),
                       FaceAdministrationClient ep (AzureKeyCredential s)))
         \<and> (truthy key \<and> (\<forall>s. key \<noteq> PStr s) \<longrightarrow>
              create_clients env cfg = Inl (TypeError ''key must be a string.''))"
    using assms u
    by (auto simp add: create_clients_def new_AzureKeyCredential_def Let_def split: pyval.splits)
  show "\<forall>v. v \<noteq> PStr ''Azure AD'' \<longrightarrow>
          create_clients env (cfg(''auth_method'' \<mapsto> v)) = create_clients env cfg"
    using u u' by (auto simp add: create_clients_def g Let_def)
  show "create_clients env (cfg(''auth_method'' := None)) = create_clients env cfg"
    using u u'' by (auto simp add: create_clients_def g Let_def)
  show "\<forall>x. create_clients env cfg = Inl x \<longrightarrow>
          x = ValueError ''Subscription key missing (cfg.key or FACE_KEY env)''
          \<or> x = TypeError ''key must be a string.''"
    using assms u
    by (auto simp add: create_clients_def new_AzureKeyCredential_def Let_def
          split: pyval.splits if_splits)
qed

theorem create_clients_auth_selection_witness:
  "create_clients Map.empty unknown_auth_cfg
     = Inr (FaceClient (PStr ''https://face.example'') (AzureKeyCredential ''k''),
            FaceAdministrationClient (PStr ''https://face.example'') (AzureKeyCredential ''k''))
   \<and> create_clients Map.empty int_key_cfg = Inl (TypeError ''key must be a string.'')
   \<and> create_clients Map.empty azure_ad_cfg
     = Inr (FaceClient (PStr ''https://face.example'') (DefaultAzureCredential Map.empty),
            FaceAdministrationClient (PStr ''https://face.example'')
              (DefaultAzureCredential Map.empty))"
proof (intro conjI)
  have e1: "truthy (py_or (cfg_get unknown_auth_cfg ''endpoint'') (environ_get Map.empty ''FACE_ENDPOINT''))"
    by (simp add: unknown_auth_cfg_def cfg_get_def py_or_def)
  have n1: "\<not> (cfg_get_default unknown_auth_cfg ''auth_method'' (PStr ''Subscription Key'')
                 = PStr ''Azure AD'' \<or> truthy (cfg_get unknown_auth_cfg ''use_managed_identity''))"
    by (simp add: unknown_auth_cfg_def cfg_get_def cfg_get_default_def)
  from create_clients_auth_selection [OF e1, THEN conjunct2, rule_format, OF n1]
  show "create_clients Map.empty unknown_auth_cfg
     = Inr (FaceClient (PStr ''https://face.example'') (AzureKeyCredential ''k''),
            FaceAdministrationClient (PStr ''https://face.example'') (AzureKeyCredential ''k''))"
    by (simp add: Let_def unknown_auth_cfg_def cfg_get_def environ_get_def py_or_def)
  have e2: "truthy (py_or (cfg_get int_key_cfg ''endpoint'') (environ_get Map.empty ''FACE_ENDPOINT''))"
    by (simp add: int_key_cfg_def cfg_get_def py_or_def)
  have n2: "\<not> (cfg_get_default int_key_cfg ''auth_method'' (PStr ''Subscription Key'')
                 = PStr ''Azure AD'' \<or> truthy (cfg_get int_key_cfg ''use_managed_identity''))"
    by (simp add: int_key_cfg_def cfg_get_def cfg_get_default_def)
  from create_clients_auth_selection [OF e2, THEN conjunct2, rule_format, OF n2]
  show "create_clients Map.empty int_key_cfg = Inl (TypeError ''key must be a string.'')"
    by (simp add: Let_def int_key_cfg_def cfg_get_def environ_get_def py_or_def)
  have e3: "truthy (py_or (cfg_get azure_ad_cfg ''endpoint'') (environ_get Map.empty ''FACE_ENDPOINT''))"
    by (simp add: azure_ad_cfg_def cfg_get_def py_or_def)
  have c3: "cfg_get_default azure_ad_cfg ''auth_method'' (PStr ''Subscription Key'') = PStr ''Azure AD''"
    by (simp add: azure_ad_cfg_def cfg_get_default_def)
  from create_clients_auth_selection [OF e3, THEN conjunct1] c3
  obtain ep where p: "create_clients Map.empty azure_ad_cfg
                 = Inr (FaceClient ep (DefaultAzureCredential Map.empty),
                        FaceAdministrationClient ep (DefaultAzureCredential Map.empty))"
    by blast
  then have "ep = PStr ''https://face.example''"
    by (simp add: create_clients_def azure_ad_cfg_def cfg_get_def cfg_get_default_def
          environ_get_def py_or_def use_azure_ad_def Let_def)
  with p show "create_clients Map.empty azure_ad_cfg
     = Inr (FaceClient (PStr ''https://face.example'') (DefaultAzureCredential Map.empty),
            FaceAdministrationClient (PStr ''https://face.example'')
              (DefaultAzureCredential Map.empty))"
    by simp
qed

text \<open>
  The claim as first stated, for every configuration, fails at a configuration
  without endpoint: \<^verbatim>\<open>auth_method\<close> is \<^verbatim>\<open>"Azure AD"\<close>, and yet no identity credential
  is selected, for \<open>create_clients\<close> has raised before.
\<close>

theorem create_clients_no_endpoint_counterexample:
  "cfg_get_default azure_ad_no_endpoint_cfg ''auth_method'' (PStr ''Subscription Key'')
     = PStr ''Azure AD''
   \<and> create_clients Map.empty azure_ad_no_endpoint_cfg
     = Inl (ValueError ''Endpoint not provided in cfg.endpoint or FACE_ENDPOINT env'')"
  by (simp add: azure_ad_no_endpoint_cfg_def create_clients_def cfg_get_def cfg_get_default_def
        environ_get_def py_or_def)









section \<open>Properties of the attribute catalog\<close>

lemma concat_map_if:
  "concat (map (\<lambda>a. if P a then [f a] else []) xs) = map f (filter P xs)"
  by (induction xs) simp_all

text \<open>
  Claim C6. For every list of names, the identifiers that a detect call requests are
  those of the names found in the catalog, in the order of the names: a name that
  the catalog does not hold is dropped, and nothing is raised. The names
  \<^verbatim>\<open>["age", "bogus", "gender"]\<close> give the identifiers of age and gender, in that order.
  For \<^verbatim>\<open>None\<close> and for the empty list no identifier is requested (the variable
  \<^verbatim>\<open>attrs\<close> stays \<^verbatim>\<open>None\<close>).
\<close>

theorem detect_attrs_filter:
  "attr_ids (detect_attrs (Some names))
     = map (\<lambda>a. the (map_of ATTRIBUTE_MAP a)) (filter (\<lambda>a. a \<in> fst ` set ATTRIBUTE_MAP) names)
   \<and> attr_ids (detect_attrs None) = []
   \<and> attr_ids (detect_attrs (Some [])) = []
   \<and> detect_attrs None = None \<and> detect_attrs (Some []) = None
   \<and> detect_attrs (Some [''age'', ''bogus'', ''gender'']) = Some [AGE, GENDER]"
proof (intro conjI)
  show "attr_ids (detect_attrs (Some names))
     = map (\<lambda>a. the (map_of ATTRIBUTE_MAP a)) (filter (\<lambda>a. a \<in> fst ` set ATTRIBUTE_MAP) names)"
    by (simp add: detect_attrs_def attr_ids_def map_of_eq_None_iff concat_map_if)
  show "detect_attrs (Some [''age'', ''bogus'', ''gender'']) = Some [AGE, GENDER]"
    by (simp add: detect_attrs_def ATTRIBUTE_MAP_def)
qed (simp_all add: detect_attrs_def attr_ids_def)


section \<open>Properties of the result normalizer\<close>

lemma json_loads_empty_object: "json_loads ''{}'' = Inr (PDict [])"
  by code_simp

lemma json_loads_quoted_mapping:
  "json_loads ''{'a': 'b'}'' = Inl (JSONDecodeError ''Expecting value'')"
  by code_simp

lemma json_loads_face: "json_loads ''<face>'' = Inl (JSONDecodeError ''Expecting value'')"
  by code_simp

lemma py_str_quoted_mapping:
  "py_str default_interpreter (PDict [(''a'', PStr ''b'')]) = Inr ''{'a': 'b'}''"
  by code_simp

lemma py_str_empty_mapping: "0 < recursion_budget I \<Longrightarrow> py_str I (PDict []) = Inr ''{}''"
  by (cases "recursion_budget I") (simp_all add: py_str_def)

lemma nat_digits_length: "10 ^ k \<le> n \<Longrightarrow> k < length (nat_digits n)"
proof (induction k arbitrary: n)
  case 0
  show ?case by (subst nat_digits.simps) simp
next
  case (Suc k)
  have p: "(1::nat) \<le> 10 ^ k" by simp
  from Suc.prems have m: "10 ^ k * 10 \<le> n" by (simp add: mult.commute)
  then have "10 ^ k \<le> n div 10" by (simp add: less_eq_div_iff_mult_less_eq)
  moreover from m p have "\<not> n < 10" by linarith
  ultimately show ?case
    using Suc.IH [of "n div 10"] by (subst nat_digits.simps) simp
qed

lemma nat_abs_big_int: "nat \<bar>big_int\<bar> = 10 ^ 4300"
proof -
  have "big_int = int (10 ^ 4300)"
    unfolding big_int_def by (simp only: of_nat_power of_nat_numeral)
  then show ?thesis by (simp only: abs_of_nat nat_int)
qed

text \<open>
  Claim C3, as the code has it. \<open>to_simple\<close> tries in order: the object's own
  \<^verbatim>\<open>as_dict()\<close>, whose result it returns; then the parse of the text \<^verbatim>\<open>str(obj)\<close> as
  JSON, whose result it returns; and last the text \<^verbatim>\<open>str(obj)\<close> itself, returned as a
  plain string and not wrapped in a mapping. It raises nothing for any object whose
  \<^verbatim>\<open>as_dict()\<close> returns or whose text can be computed; the only exception that can
  leave it is the one that \<^verbatim>\<open>str(obj)\<close> raises, when \<^verbatim>\<open>as_dict()\<close> has failed.
\<close>

theorem to_simple_chain:
  "(\<forall>d. as_dict obj = Inr d \<longrightarrow> to_simple loads obj = Inr d)
   \<and> (\<forall>s v. \<not> returned (as_dict obj) \<and> obj_str obj = Inr s \<and> loads s = Inr v
        \<longrightarrow> to_simple loads obj = Inr v)
   \<and> (\<forall>s. \<not> returned (as_dict obj) \<and> obj_str obj = Inr s \<and> \<not> returned (loads s)
        \<longrightarrow> to_simple loads obj = Inr (PStr s))
   \<and> (returned (as_dict obj) \<or> returned (obj_str obj) \<longrightarrow> returned (to_simple loads obj))
   \<and> (\<forall>x. to_simple loads obj = Inl x \<longleftrightarrow> \<not> returned (as_dict obj) \<and> obj_str obj = Inl x)"
  by (auto simp add: to_simple_def returned_def split: sum.splits)

theorem to_simple_chain_witness:
  "to_simple json_loads (PyObj (Inr (PDict [(''faceId'', PStr ''f1'')])) (Inr ''<face>''))
     = Inr (PDict [(''faceId'', PStr ''f1'')])
   \<and> to_simple json_loads (PyObj (Inl (AttributeError ''as_dict'')) (Inr ''{}'')) = Inr (PDict [])
   \<and> to_simple json_loads (PyObj (Inl (AttributeError ''as_dict'')) (Inr ''<face>''))
     = Inr (PStr ''<face>'')"
proof (intro conjI)
  show "to_simple json_loads (PyObj (Inr (PDict [(''faceId'', PStr ''f1'')])) (Inr ''<face>''))
     = Inr (PDict [(''faceId'', PStr ''f1'')])"
    by (rule to_simple_chain [THEN conjunct1, rule_format]) simp
  show "to_simple json_loads (PyObj (Inl (AttributeError ''as_dict'')) (Inr ''{}'')) = Inr (PDict [])"
    by (rule to_simple_chain [THEN conjunct2, THEN conjunct1, rule_format, of _ "''{}''"])
       (simp add: returned_def json_loads_empty_object)
  show "to_simple json_loads (PyObj (Inl (AttributeError ''as_dict'')) (Inr ''<face>''))
     = Inr (PStr ''<face>'')"
    by (rule to_simple_chain [THEN conjunct2, THEN conjunct2, THEN conjunct1, rule_format])
       (simp add: returned_def json_loads_face)
qed

text \<open>
  The claim as first stated fails twice. At an object without \<^verbatim>\<open>as_dict\<close> whose text
  is not JSON the result is the text, not the mapping from \<^verbatim>\<open>"raw"\<close> to the text. At
  an object without \<^verbatim>\<open>as_dict\<close> whose \<^verbatim>\<open>__str__\<close> raises, that exception leaves
  \<open>to_simple\<close>.
\<close>

theorem to_simple_raw_counterexample:
  "to_simple json_loads (PyObj (Inl (AttributeError ''as_dict'')) (Inr ''<face>''))
     = Inr (PStr ''<face>'')
   \<and> to_simple json_loads (PyObj (Inl (AttributeError ''as_dict'')) (Inr ''<face>''))
       \<noteq> Inr (PDict [(''raw'', PStr ''<face>'')])
   \<and> to_simple json_loads unprintable_obj = Inl (OtherException ''RuntimeError'' ''no text'')"
  by (simp add: to_simple_def unprintable_obj_def json_loads_face)

lemma py_str_big_int:
  "py_str default_interpreter (PDict [(''a'', PInt big_int)])
     = Inl (ValueError (''Exceeds the limit (4300 digits) for integer string conversion; ''
              @ ''use sys.set_int_max_str_digits() to increase the limit''))"
proof -
  have "(10::nat) ^ 4300 \<le> nat \<bar>big_int\<bar>"
    by (simp only: nat_abs_big_int order_refl)
  then have len: "4300 < length (nat_digits (nat \<bar>big_int\<bar>))"
    by (rule nat_digits_length)
  have d: "nat_digits 4300 = ''4300''"
    by code_simp
  have i: "int_repr default_interpreter big_int
     = Inl (ValueError (''Exceeds the limit (4300 digits) for integer string conversion; ''
              @ ''use sys.set_int_max_str_digits() to increase the limit''))"
    unfolding int_repr_def Let_def using len
    by (simp del: nat_digits.simps add: default_interpreter_def d)
  have b: "recursion_budget default_interpreter = Suc (Suc 998)"
    by (simp add: default_interpreter_def)
  have step: "py_repr default_interpreter (Suc (Suc d)) (PDict [(''a'', PInt big_int)])
     = Inl (ValueError (''Exceeds the limit (4300 digits) for integer string conversion; ''
              @ ''use sys.set_int_max_str_digits() to increase the limit''))"
    for d by (simp add: i)
  show ?thesis
    unfolding py_str_def pyval.case b by (rule step)
qed

text \<open>
  Claim C8, as the code has it. A plain mapping has no \<^verbatim>\<open>as_dict\<close>, so \<open>to_simple\<close>
  goes by its text. When the text \<^verbatim>\<open>str(x)\<close> can be computed, the result is the JSON
  parse of the text when it parses, as for the empty mapping, which comes back
  unchanged, and the text itself otherwise; when the text does not parse,
  normalizing the result again returns the same result. The only exception that can
  leave \<open>to_simple\<close> on a plain mapping is the one that \<^verbatim>\<open>str(x)\<close> raises.
\<close>

theorem to_simple_builtin:
  "(\<forall>s v. py_str I x = Inr s \<and> loads s = Inr v \<longrightarrow> to_simple loads (builtin_obj I x) = Inr v)
   \<and> (\<forall>s. py_str I x = Inr s \<and> \<not> returned (loads s) \<longrightarrow>
         to_simple loads (builtin_obj I x) = Inr (PStr s)
       \<and> to_simple loads (builtin_obj I (PStr s)) = Inr (PStr s))
   \<and> (0 < recursion_budget I \<longrightarrow> to_simple json_loads (builtin_obj I (PDict [])) = Inr (PDict []))
   \<and> (\<forall>e. to_simple loads (builtin_obj I x) = Inl e \<longleftrightarrow> py_str I x = Inl e)"
proof (intro conjI)
  show "\<forall>s v. py_str I x = Inr s \<and> loads s = Inr v \<longrightarrow> to_simple loads (builtin_obj I x) = Inr v"
    by (simp add: to_simple_def builtin_obj_def)
  show "\<forall>s. py_str I x = Inr s \<and> \<not> returned (loads s) \<longrightarrow>
         to_simple loads (builtin_obj I x) = Inr (PStr s)
       \<and> to_simple loads (builtin_obj I (PStr s)) = Inr (PStr s)"
    by (auto simp add: to_simple_def builtin_obj_def py_str_def returned_def split: sum.splits)
  show "0 < recursion_budget I \<longrightarrow> to_simple json_loads (builtin_obj I (PDict [])) = Inr (PDict [])"
    by (simp add: to_simple_def builtin_obj_def py_str_empty_mapping json_loads_empty_object)
  show "\<forall>e. to_simple loads (builtin_obj I x) = Inl e \<longleftrightarrow> py_str I x = Inl e"
    by (auto simp add: to_simple_def builtin_obj_def split: sum.splits)
qed

theorem to_simple_builtin_witness:
  "py_str default_interpreter (PDict [(''a'', PStr ''b'')]) = Inr ''{'a': 'b'}''
   \<and> \<not> returned (json_loads ''{'a': 'b'}'')
   \<and> to_simple json_loads (builtin_obj default_interpreter (PDict [(''a'', PStr ''b'')]))
       = Inr (PStr ''{'a': 'b'}'')
   \<and> to_simple json_loads (builtin_obj default_interpreter (PStr ''{'a': 'b'}''))
       = Inr (PStr ''{'a': 'b'}'')
   \<and> to_simple json_loads (builtin_obj default_interpreter (PDict [])) = Inr (PDict [])"
proof -
  have r: "\<not> returned (json_loads ''{'a': 'b'}'')"
    by (simp add: json_loads_quoted_mapping returned_def)
  have b: "0 < recursion_budget default_interpreter"
    by (simp add: default_interpreter_def)
  note t = to_simple_builtin [of default_interpreter "PDict [(''a'', PStr ''b'')]" json_loads]
  from t [THEN conjunct2, THEN conjunct1, rule_format, of "''{'a': 'b'}''"]
    py_str_quoted_mapping r
  have "to_simple json_loads (builtin_obj default_interpreter (PDict [(''a'', PStr ''b'')]))
       = Inr (PStr ''{'a': 'b'}'')
     \<and> to_simple json_loads (builtin_obj default_interpreter (PStr ''{'a': 'b'}''))
       = Inr (PStr ''{'a': 'b'}'')"
    by blast
  moreover from t [THEN conjunct2, THEN conjunct2, THEN conjunct1, rule_format, OF b]
  have "to_simple json_loads (builtin_obj default_interpreter (PDict [])) = Inr (PDict [])" .
  ultimately show ?thesis
    using py_str_quoted_mapping r by blast
qed

text \<open>
  The claim as first stated fails twice. At the mapping \<^verbatim>\<open>{"a": "b"}\<close> the text
  \<^verbatim>\<open>{'a': 'b'}\<close> is not JSON, and the result is that text, not the mapping. At a
  mapping that holds an integer of 4301 digits, \<^verbatim>\<open>str(x)\<close> raises under the default
  limit, and the exception leaves \<open>to_simple\<close>.
\<close>

theorem to_simple_plain_mapping_counterexample:
  "to_simple json_loads (builtin_obj default_interpreter (PDict [(''a'', PStr ''b'')]))
     = Inr (PStr ''{'a': 'b'}'')
   \<and> to_simple json_loads (builtin_obj default_interpreter (PDict [(''a'', PStr ''b'')]))
     \<noteq> Inr (PDict [(''a'', PStr ''b'')])
   \<and> to_simple json_loads (builtin_obj default_interpreter (PDict [(''a'', PInt big_int)]))
     = Inl (ValueError (''Exceeds the limit (4300 digits) for integer string conversion; ''
              @ ''use sys.set_int_max_str_digits() to increase the limit''))"
  by (simp add: to_simple_def builtin_obj_def py_str_quoted_mapping json_loads_quoted_mapping
        py_str_big_int)

section \<open>Properties of the face operations\<close>

text \<open>
  Claim C2, as the code has it. \<open>detect_faces_sdk\<close> does not check its two inputs.
  When the configuration is rejected it raises that error and sends nothing;
  otherwise it sends exactly one request, whatever the inputs: to the URL when a
  non-empty URL is given (the image bytes are then ignored), and else the byte
  stream, which is empty when no bytes are given.
\<close>

theorem detect_proceeds:
  "(create_clients env cfg = Inl e \<longrightarrow>
      detect_faces_sdk sdk loads env cfg img_bytes url lm dm rm attrs w = (Inl e, w))
   \<and> (create_clients env cfg = Inr (client, admin) \<longrightarrow>
        snd (snd (detect_faces_sdk (logged sdk) loads env cfg img_bytes url lm dm rm attrs (w, [])))
          = [let opts = \<lparr>detection_model = dm, recognition_model = rm, return_face_id = True,
                          return_face_landmarks = lm, return_face_attributes = detect_attrs attrs\<rparr>
             in if given url then DetectFromUrl client (url_text url) opts
                else DetectFromStream client (BytesIO img_bytes) opts])"
  by (auto simp add: detect_faces_sdk_def logged_simps record_call_def Let_def
        split: prod.splits sum.splits)

theorem detect_proceeds_witness:
  "snd (snd (detect_faces_sdk (logged accepting_sdk) json_loads Map.empty key_cfg (Some [1, 2, 3])
        (Some ''https://img.example/a.jpg'') False DETECTION03 RECOGNITION04 None ((), [])))
     = [DetectFromUrl (FaceClient (PStr ''https://face.example'') (AzureKeyCredential ''k''))
          ''https://img.example/a.jpg''
          \<lparr>detection_model = DETECTION03, recognition_model = RECOGNITION04, return_face_id = True,
           return_face_landmarks = False, return_face_attributes = None\<rparr>]
   \<and> detect_faces_sdk accepting_sdk json_loads Map.empty Map.empty None None
        False DETECTION03 RECOGNITION04 None ()
      = (Inl (ValueError ''Endpoint not provided in cfg.endpoint or FACE_ENDPOINT env''), ())"
proof -
  have a: "create_clients Map.empty Map.empty
     = Inl (ValueError ''Endpoint not provided in cfg.endpoint or FACE_ENDPOINT env'')"
    by (simp add: create_clients_def cfg_get_def environ_get_def py_or_def)
  show ?thesis
    using detect_proceeds [THEN conjunct2, rule_format, OF create_clients_key_cfg,
        of accepting_sdk json_loads "Some [1, 2, 3]" "Some ''https://img.example/a.jpg''"
           False DETECTION03 RECOGNITION04 None "()"]
      detect_proceeds [THEN conjunct1, rule_format, OF a,
        of accepting_sdk json_loads None None False DETECTION03 RECOGNITION04 None "()"]
    by (simp add: given_def url_text_def detect_attrs_def)
qed

text \<open>
  The claim as first stated fails: against a service that accepts the requests, the
  call with both an image and a URL and the call with neither both return a result.
\<close>

theorem detect_both_neither_counterexample:
  "fst (detect_faces_sdk accepting_sdk json_loads Map.empty key_cfg (Some [1, 2, 3])
          (Some ''https://img.example/a.jpg'') False DETECTION03 RECOGNITION04 None ()) = Inr []
   \<and> fst (detect_faces_sdk accepting_sdk json_loads Map.empty key_cfg None None
          False DETECTION03 RECOGNITION04 None ()) = Inr []"
  by (simp add: detect_faces_sdk_def accepting_sdk_def unreachable_sdk_def create_clients_key_cfg
        given_def Let_def)

lemma confidences_three: "candidate_confidences three_candidates = [0.3, 0.9, 0.6]"
  by (simp add: three_candidates_def candidate_def map_filter_simps)

lemma spec_three: "spec_identification 2 0.5 [0.3, 0.9, 0.6] = [0.9, 0.6]"
  by (simp add: spec_identification_def)

text \<open>
  Claim C9, as the code has it. \<open>identify_sdk\<close> sends one identification request that
  carries the face identifiers, the group, the maximum candidate count and the
  confidence threshold as the caller gave them, and returns the results of the
  service, each converted by \<^verbatim>\<open>as_dict()\<close>, in the order the service gave them: it
  neither sorts, filters nor cuts the candidates itself.
\<close>

theorem identify_passes_through:
  "create_clients env cfg = Inr (client, admin) \<longrightarrow>
     snd (snd (identify_sdk (logged sdk) env cfg fs g m t (w, []))) = [Identify client fs g m t]
     \<and> (identify_from_large_person_group sdk client fs g m t w = (Inr rs, w')
          \<and> map as_dict rs = map Inr ds
        \<longrightarrow> identify_sdk sdk env cfg fs g m t w = (Inr ds, w'))"
  by (auto simp add: identify_sdk_def logged_simps record_call_def map_result_all
        split: prod.splits sum.splits)

theorem identify_passes_through_witness:
  "snd (snd (identify_sdk (logged three_candidates_sdk) Map.empty key_cfg [''f1''] ''g'' 2 0.5 ((), [])))
     = [Identify (FaceClient (PStr ''https://face.example'') (AzureKeyCredential ''k''))
          [''f1''] ''g'' 2 0.5]
   \<and> identify_sdk three_candidates_sdk Map.empty key_cfg [''f1''] ''g'' 2 0.5 ()
       = (Inr [three_candidates], ())"
proof -
  have a: "identify_from_large_person_group three_candidates_sdk
             (FaceClient (PStr ''https://face.example'') (AzureKeyCredential ''k''))
             [''f1''] ''g'' 2 0.5 ()
           = (Inr [PyObj (Inr three_candidates) (Inr ''<FaceIdentificationResult>'')], ())
         \<and> map as_dict [PyObj (Inr three_candidates) (Inr ''<FaceIdentificationResult>'')]
           = map Inr [three_candidates]"
    by (simp add: three_candidates_sdk_def unreachable_sdk_def)
  note t = identify_passes_through [rule_format, OF create_clients_key_cfg]
  show ?thesis
    using t [THEN conjunct1, of three_candidates_sdk "[''f1'']" "''g''" 2 "0.5" "()"]
      t [THEN conjunct2, rule_format, OF a]
    by simp
qed

text \<open>
  The claim as first stated fails: when the client answers with candidates of
  confidence 0.3, 0.9 and 0.6, a call with at most 2 candidates and threshold 0.5
  returns all three in that order, where the claim expects 0.9 and 0.6.
\<close>

theorem identify_order_counterexample:
  "fst (identify_sdk three_candidates_sdk Map.empty key_cfg [''f1''] ''g'' 2 0.5 ()) = Inr [three_candidates]
   \<and> candidate_confidences three_candidates = [0.3, 0.9, 0.6]
   \<and> spec_identification 2 0.5 [0.3, 0.9, 0.6] = [0.9, 0.6]
   \<and> candidate_confidences three_candidates \<noteq> spec_identification 2 0.5 [0.3, 0.9, 0.6]"
proof (intro conjI)
  show "fst (identify_sdk three_candidates_sdk Map.empty key_cfg [''f1''] ''g'' 2 0.5 ())
          = Inr [three_candidates]"
    by (simp add: identify_sdk_def three_candidates_sdk_def unreachable_sdk_def
          create_clients_key_cfg)
  show "candidate_confidences three_candidates = [0.3, 0.9, 0.6]"
    by (rule confidences_three)
  show "spec_identification 2 0.5 [0.3, 0.9, 0.6] = [0.9, 0.6]"
    by (rule spec_three)
  show "candidate_confidences three_candidates \<noteq> spec_identification 2 0.5 [0.3, 0.9, 0.6]"
    unfolding confidences_three spec_three by simp
qed


section \<open>Properties of the capability prober\<close>

lemma probe_detect_basic_flags:
  assumes "probe_detect_basic sdk loads env cfg url r w = (r', w')"
  shows "detect_attributes r' = detect_attributes r" and "largePersonGroup r' = largePersonGroup r"
    and "set (errors r) \<subseteq> set (errors r')"
  using assms unfolding probe_detect_basic_def
  by (auto simp add: Let_def split: prod.splits sum.splits if_splits)

lemma probe_detect_attributes_flags:
  assumes "probe_detect_attributes sdk loads env cfg url r w = (r', w')"
  shows "detect_basic r' = detect_basic r" and "largePersonGroup r' = largePersonGroup r"
    and "set (errors r) \<subseteq> set (errors r')"
    and "\<not> detect_basic r \<Longrightarrow> detect_attributes r' = detect_attributes r"
  using assms unfolding probe_detect_attributes_def
  by (auto simp add: Let_def split: prod.splits sum.splits if_splits)

lemma probe_large_person_group_flags:
  assumes "probe_large_person_group sdk env cfg r w = (r', w')"
  shows "detect_basic r' = detect_basic r" and "detect_attributes r' = detect_attributes r"
    and "set (errors r) \<subseteq> set (errors r')"
  using assms unfolding probe_large_person_group_def
  by (auto simp add: Let_def split: prod.splits sum.splits if_splits)

lemma probe_detect_basic_eq:
  "probe_detect_basic sdk loads env cfg url r w
     = (case fst (basic_check sdk loads env cfg url w) of
          Inl e \<Rightarrow> r\<lparr>errors := errors r @ [''detect_basic error: '' @ repr_exn e]\<rparr>
        | Inr _ \<Rightarrow> r\<lparr>detect_basic := True\<rparr>,
        snd (basic_check sdk loads env cfg url w))"
  by (simp add: probe_detect_basic_def basic_check_def Let_def split: prod.splits sum.splits)

lemma probe_detect_attributes_eq:
  "probe_detect_attributes sdk loads env cfg url r w
     = (if detect_basic r \<and> given url
        then (case fst (probe_detect sdk loads env cfg None url (Some [''age'', ''gender'']) w) of
                Inl e \<Rightarrow>
                  r\<lparr>errors := errors r @ [''detect_attributes error: '' @ repr_exn e],
                    detect_attributes := False\<rparr>
              | Inr _ \<Rightarrow> r\<lparr>detect_attributes := True\<rparr>,
              snd (probe_detect sdk loads env cfg None url (Some [''age'', ''gender'']) w))
        else if detect_basic r then (r\<lparr>detect_attributes := True\<rparr>, w)
        else (r, w))"
  by (simp add: probe_detect_attributes_def Let_def split: prod.splits sum.splits)

lemma probe_large_person_group_eq:
  "probe_large_person_group sdk env cfg r w
     = (case fst (list_large_person_groups_sdk sdk env cfg w) of
          Inl e \<Rightarrow>
            r\<lparr>errors := errors r @ [''largePersonGroup error: '' @ repr_exn e],
              largePersonGroup := False\<rparr>
        | Inr _ \<Rightarrow> r\<lparr>largePersonGroup := True\<rparr>,
        snd (list_large_person_groups_sdk sdk env cfg w))"
  by (simp add: probe_large_person_group_def Let_def split: prod.splits sum.splits)

lemma probe_endpoint_report:
  "probe_endpoint sdk loads env cfg url w
     = (Inr \<lparr>detect_basic = returned (fst (basic_check sdk loads env cfg url w)),
             detect_attributes =
               (returned (fst (basic_check sdk loads env cfg url w))
                \<and> (\<not> given url \<or> returned (fst (attribute_check sdk loads env cfg url w)))),
             largePersonGroup = returned (fst (group_check sdk loads env cfg url w)),
             errors =
               error_entries ''detect_basic'' (fst (basic_check sdk loads env cfg url w))
               @ (if returned (fst (basic_check sdk loads env cfg url w)) \<and> given url
                  then error_entries ''detect_attributes''
                         (fst (attribute_check sdk loads env cfg url w))
                  else [])
               @ error_entries ''largePersonGroup'' (fst (group_check sdk loads env cfg url w))\<rparr>,
        snd (group_check sdk loads env cfg url w))"
proof (cases "fst (basic_check sdk loads env cfg url w)")
  case (Inl e)
  then show ?thesis
    by (cases "fst (group_check sdk loads env cfg url w)")
       (simp_all add: probe_endpoint_def probe_detect_basic_eq probe_detect_attributes_eq
          probe_large_person_group_eq group_check_def returned_def error_entries_def
          initial_report_def)
next
  case b: (Inr faces)
  show ?thesis
  proof (cases "given url")
    case False
    with b show ?thesis
      by (cases "fst (group_check sdk loads env cfg url w)")
         (simp_all add: probe_endpoint_def probe_detect_basic_eq probe_detect_attributes_eq
            probe_large_person_group_eq group_check_def returned_def error_entries_def
            initial_report_def)
  next
    case True
    with b show ?thesis
      by (cases "fst (attribute_check sdk loads env cfg url w)";
          cases "fst (group_check sdk loads env cfg url w)")
         (simp_all add: probe_endpoint_def probe_detect_basic_eq probe_detect_attributes_eq
            probe_large_person_group_eq group_check_def attribute_check_def returned_def
            error_entries_def initial_report_def)
  qed
qed

text \<open>
  Claim C1. For every service, configuration and optional test-image URL,
  \<open>probe_endpoint\<close> returns a report and raises nothing. The report holds the three
  booleans and the list of errors. Each boolean tells whether the call of its check
  returned: when the call of a check raised, the boolean is false and the list holds
  the entry made of the check's name and the \<^verbatim>\<open>repr\<close> of that exception; the list
  holds these entries and no other, in the order of the checks; and when one of
  the booleans is false the list is not empty.
\<close>

theorem probe_endpoint_total:
  "\<exists>r w'. probe_endpoint sdk loads env cfg url w = (Inr r, w')
     \<and> (detect_basic r \<longleftrightarrow> returned (fst (basic_check sdk loads env cfg url w)))
     \<and> (largePersonGroup r \<longleftrightarrow> returned (fst (group_check sdk loads env cfg url w)))
     \<and> (detect_basic r \<and> given url \<longrightarrow>
          (detect_attributes r \<longleftrightarrow> returned (fst (attribute_check sdk loads env cfg url w))))
     \<and> (\<not> detect_basic r \<longrightarrow> \<not> detect_attributes r)
     \<and> (\<forall>e. fst (basic_check sdk loads env cfg url w) = Inl e \<longrightarrow>
           \<not> detect_basic r \<and> ''detect_basic error: '' @ repr_exn e \<in> set (errors r))
     \<and> (\<forall>e. detect_basic r \<and> given url
              \<and> fst (attribute_check sdk loads env cfg url w) = Inl e \<longrightarrow>
           \<not> detect_attributes r \<and> ''detect_attributes error: '' @ repr_exn e \<in> set (errors r))
     \<and> (\<forall>e. fst (group_check sdk loads env cfg url w) = Inl e \<longrightarrow>
           \<not> largePersonGroup r \<and> ''largePersonGroup error: '' @ repr_exn e \<in> set (errors r))
     \<and> errors r
         = error_entries ''detect_basic'' (fst (basic_check sdk loads env cfg url w))
           @ (if detect_basic r \<and> given url
              then error_entries ''detect_attributes''
                     (fst (attribute_check sdk loads env cfg url w))
              else [])
           @ error_entries ''largePersonGroup'' (fst (group_check sdk loads env cfg url w))
     \<and> (\<not> detect_basic r \<or> \<not> detect_attributes r \<or> \<not> largePersonGroup r \<longrightarrow> errors r \<noteq> [])
     \<and> w' = snd (group_check sdk loads env cfg url w)"
  unfolding probe_endpoint_report
  by (intro exI conjI refl)
     (auto simp add: returned_def error_entries_def split: sum.splits)

lemma probe_unreachable_no_key:
  "probe_endpoint unreachable_sdk json_loads Map.empty no_key_cfg None ()
     = (Inr \<lparr>detect_basic = False, detect_attributes = False, largePersonGroup = False,
             errors = [''detect_basic error: ValueError('Subscription key missing (cfg.key or FACE_KEY env)')'',
                       ''largePersonGroup error: ValueError('Subscription key missing (cfg.key or FACE_KEY env)')'']\<rparr>,
        ())"
  by code_simp

lemma probe_unreachable_key:
  "probe_endpoint unreachable_sdk json_loads Map.empty key_cfg (Some ''https://img.example/a.jpg'') ()
     = (Inr \<lparr>detect_basic = False, detect_attributes = False, largePersonGroup = False,
             errors = [''detect_basic error: ServiceRequestError('connection refused')'',
                       ''largePersonGroup error: ServiceRequestError('connection refused')'']\<rparr>,
        ())"
  by code_simp


theorem probe_endpoint_total_witness:
  "(\<exists>r w'. probe_endpoint unreachable_sdk json_loads Map.empty no_key_cfg None () = (Inr r, w')
      \<and> \<not> detect_basic r \<and> \<not> largePersonGroup r \<and> errors r \<noteq> []
      \<and> ''detect_basic error: ValueError('Subscription key missing (cfg.key or FACE_KEY env)')''
           \<in> set (errors r))
   \<and> (\<exists>r w'. probe_endpoint unreachable_sdk json_loads Map.empty key_cfg
                 (Some ''https://img.example/a.jpg'') () = (Inr r, w')
      \<and> \<not> detect_basic r \<and> \<not> largePersonGroup r \<and> errors r \<noteq> []
      \<and> ''largePersonGroup error: ServiceRequestError('connection refused')'' \<in> set (errors r))"
proof
  from probe_endpoint_total [of unreachable_sdk json_loads Map.empty no_key_cfg None "()"]
  obtain r w' where
    p: "probe_endpoint unreachable_sdk json_loads Map.empty no_key_cfg None () = (Inr r, w')"
    and h: "\<not> detect_basic r \<or> \<not> detect_attributes r \<or> \<not> largePersonGroup r \<longrightarrow> errors r \<noteq> []"
    by blast
  from p have r: "r = \<lparr>detect_basic = False, detect_attributes = False, largePersonGroup = False,
             errors = [''detect_basic error: ValueError('Subscription key missing (cfg.key or FACE_KEY env)')'',
                       ''largePersonGroup error: ValueError('Subscription key missing (cfg.key or FACE_KEY env)')'']\<rparr>"
    unfolding probe_unreachable_no_key by simp
  then have "\<not> detect_basic r" and "\<not> largePersonGroup r"
    and "''detect_basic error: ValueError('Subscription key missing (cfg.key or FACE_KEY env)')''
           \<in> set (errors r)"
    by simp_all
  with p h show "\<exists>r w'. probe_endpoint unreachable_sdk json_loads Map.empty no_key_cfg None ()
        = (Inr r, w')
      \<and> \<not> detect_basic r \<and> \<not> largePersonGroup r \<and> errors r \<noteq> []
      \<and> ''detect_basic error: ValueError('Subscription key missing (cfg.key or FACE_KEY env)')''
           \<in> set (errors r)"
    by blast
next
  from probe_endpoint_total [of unreachable_sdk json_loads Map.empty key_cfg
      "Some ''https://img.example/a.jpg''" "()"]
  obtain r w' where
    p: "probe_endpoint unreachable_sdk json_loads Map.empty key_cfg
          (Some ''https://img.example/a.jpg'') () = (Inr r, w')"
    and h: "\<not> detect_basic r \<or> \<not> detect_attributes r \<or> \<not> largePersonGroup r \<longrightarrow> errors r \<noteq> []"
    by blast
  from p have r: "r = \<lparr>detect_basic = False, detect_attributes = False, largePersonGroup = False,
             errors = [''detect_basic error: ServiceRequestError('connection refused')'',
                       ''largePersonGroup error: ServiceRequestError('connection refused')'']\<rparr>"
    unfolding probe_unreachable_key by simp
  then have "\<not> detect_basic r" and "\<not> largePersonGroup r"
    and "''largePersonGroup error: ServiceRequestError('connection refused')'' \<in> set (errors r)"
    by simp_all
  with p h show "\<exists>r w'. probe_endpoint unreachable_sdk json_loads Map.empty key_cfg
                 (Some ''https://img.example/a.jpg'') () = (Inr r, w')
      \<and> \<not> detect_basic r \<and> \<not> largePersonGroup r \<and> errors r \<noteq> []
      \<and> ''largePersonGroup error: ServiceRequestError('connection refused')'' \<in> set (errors r)"
    by blast
qed

lemma detect_logged:
  assumes "detect_faces_sdk (logged sdk) loads env cfg img url lm dm rm attrs (w, lg) = (res, (w', lg'))"
  shows "list_ex attribute_request lg'
           = (list_ex attribute_request lg
              \<or> ((\<exists>cl. create_clients env cfg = Inr cl) \<and> detect_attrs attrs \<noteq> None))"
    and "(\<exists>v. res = Inr v) \<longrightarrow> (\<exists>cl. create_clients env cfg = Inr cl)"
  using assms
  by (auto simp add: detect_faces_sdk_def logged_simps record_call_def Let_def
        split: prod.splits sum.splits if_splits)

lemma probe_detect_logged:
  assumes "probe_detect (logged sdk) loads env cfg img url attrs (w, lg) = (res, (w', lg'))"
  shows "list_ex attribute_request lg'
           = (list_ex attribute_request lg
              \<or> ((\<exists>cl. create_clients env cfg = Inr cl) \<and> detect_attrs attrs \<noteq> None))"
    and "(\<exists>v. res = Inr v) \<longrightarrow> (\<exists>cl. create_clients env cfg = Inr cl)"
  using assms detect_logged [of sdk loads env cfg img url False DEFAULT_DETECTION_MODEL
      DEFAULT_RECOGNITION_MODEL attrs w lg res w' lg']
  by (simp_all add: probe_detect_def)

lemma list_groups_logged:
  assumes "list_large_person_groups_sdk (logged sdk) env cfg (w, lg) = (res, (w', lg'))"
  shows "list_ex attribute_request lg' = list_ex attribute_request lg"
  using assms
  by (auto simp add: list_large_person_groups_sdk_def logged_simps record_call_def
        split: prod.splits sum.splits)

lemma probe_detect_basic_logged:
  assumes "probe_detect_basic (logged sdk) loads env cfg url r (w, lg) = (r', (w', lg'))"
  shows "list_ex attribute_request lg' = list_ex attribute_request lg"
    and "detect_basic r' \<and> \<not> detect_basic r \<longrightarrow> (\<exists>cl. create_clients env cfg = Inr cl)"
proof -
  obtain res w1 lg1 where c1:
    "probe_detect (logged sdk) loads env cfg (if given url then None else Some [0])
       (if given url then url else None) None (w, lg) = (res, (w1, lg1))"
    by (metis prod.exhaust)
  obtain res2 w2 lg2 where c2:
    "probe_detect (logged sdk) loads env cfg None url None (w1, lg1) = (res2, (w2, lg2))"
    by (metis prod.exhaust)
  note l1 = probe_detect_logged [OF c1]
  note l2 = probe_detect_logged [OF c2]
  have n: "detect_attrs None = None" by (simp add: detect_attrs_def)
  have e1: "list_ex attribute_request lg1 = list_ex attribute_request lg"
    using l1(1) n by simp
  have e2: "list_ex attribute_request lg2 = list_ex attribute_request lg"
    using l2(1) e1 n by simp
  have lgs: "lg' = lg1 \<or> lg' = lg2"
    using assms c1 c2 unfolding probe_detect_basic_def
    by (auto simp add: Let_def split: sum.splits if_splits)
  then show "list_ex attribute_request lg' = list_ex attribute_request lg"
    using e1 e2 by auto
  have "detect_basic r' \<and> \<not> detect_basic r \<longrightarrow> (\<exists>v. res = Inr v) \<or> (\<exists>v. res2 = Inr v)"
    using assms c1 c2 unfolding probe_detect_basic_def
    by (auto simp add: Let_def split: sum.splits if_splits)
  then show "detect_basic r' \<and> \<not> detect_basic r \<longrightarrow> (\<exists>cl. create_clients env cfg = Inr cl)"
    using l1(2) l2(2) by blast
qed

lemma probe_detect_attributes_logged:
  assumes "probe_detect_attributes (logged sdk) loads env cfg url r (w, lg) = (r', (w', lg'))"
  shows "list_ex attribute_request lg'
           = (list_ex attribute_request lg
              \<or> (detect_basic r \<and> given url \<and> (\<exists>cl. create_clients env cfg = Inr cl)))"
proof -
  obtain res w1 lg1 where c1:
    "probe_detect (logged sdk) loads env cfg None url (Some [''age'', ''gender'']) (w, lg)
       = (res, (w1, lg1))"
    by (metis prod.exhaust)
  have n: "detect_attrs (Some [''age'', ''gender'']) \<noteq> None" by (simp add: detect_attrs_def)
  have e1: "list_ex attribute_request lg1
              = (list_ex attribute_request lg \<or> (\<exists>cl. create_clients env cfg = Inr cl))"
    using probe_detect_logged(1) [OF c1] n by simp
  have "lg' = (if detect_basic r \<and> given url then lg1 else lg)"
    using assms c1 unfolding probe_detect_attributes_def
    by (auto simp add: Let_def split: sum.splits if_splits)
  then show ?thesis using e1 by auto
qed

lemma probe_large_person_group_logged:
  assumes "probe_large_person_group (logged sdk) env cfg r (w, lg) = (r', (w', lg'))"
  shows "list_ex attribute_request lg' = list_ex attribute_request lg"
proof -
  obtain res w1 lg1 where c1:
    "list_large_person_groups_sdk (logged sdk) env cfg (w, lg) = (res, (w1, lg1))"
    by (metis prod.exhaust)
  have "lg' = lg1"
    using assms c1 unfolding probe_large_person_group_def
    by (auto simp add: Let_def split: sum.splits)
  then show ?thesis using list_groups_logged [OF c1] by simp
qed


text \<open>
  Claim C7, as the code has it. In every run of the prober, a detect request that
  asks for attributes is sent exactly when the basic check succeeded and a
  test-image URL was given: the attribute check is attempted only after a successful
  basic check, and without a URL no such request is sent. The report's
  \<^verbatim>\<open>detect_attributes\<close> is a boolean with no value of its own for a check that did
  not run: whenever the basic check failed it is false, and so it is when the
  attribute request was sent and raised; when the request was sent and returned it
  is true.
\<close>

theorem probe_attribute_check:
  assumes "probe_endpoint (logged sdk) loads env cfg url (w, []) = (Inr r, (w', lg))"
  shows "(list_ex attribute_request lg \<longleftrightarrow> detect_basic r \<and> given url)
       \<and> (\<not> given url \<longrightarrow> \<not> list_ex attribute_request lg)
       \<and> (\<not> detect_basic r \<longrightarrow> \<not> detect_attributes r \<and> \<not> list_ex attribute_request lg)
       \<and> (detect_basic r \<and> given url \<longrightarrow>
            (detect_attributes r
               \<longleftrightarrow> returned (fst (attribute_check (logged sdk) loads env cfg url (w, [])))))
       \<and> (\<forall>e. detect_basic r \<and> given url
                \<and> fst (attribute_check (logged sdk) loads env cfg url (w, [])) = Inl e
             \<longrightarrow> \<not> detect_attributes r)"
proof -
  define r0 where "r0 = initial_report"
  obtain r1 w1 lg1 where p1:
    "probe_detect_basic (logged sdk) loads env cfg url r0 (w, []) = (r1, (w1, lg1))"
    by (metis prod.exhaust)
  obtain r2 w2 lg2 where p2:
    "probe_detect_attributes (logged sdk) loads env cfg url r1 (w1, lg1) = (r2, (w2, lg2))"
    by (metis prod.exhaust)
  obtain r3 w3 lg3 where p3:
    "probe_large_person_group (logged sdk) env cfg r2 (w2, lg2) = (r3, (w3, lg3))"
    by (metis prod.exhaust)
  have "probe_endpoint (logged sdk) loads env cfg url (w, []) = (Inr r3, (w3, lg3))"
    using p1 p2 p3 by (simp add: probe_endpoint_def r0_def)
  with assms have eq: "r = r3" "lg = lg3" by simp_all
  have r0: "\<not> detect_basic r0" "\<not> detect_attributes r0"
    by (simp_all add: r0_def initial_report_def)
  have a1: "\<not> list_ex attribute_request lg1"
    using probe_detect_basic_logged(1) [OF p1] by simp
  have cl: "detect_basic r1 \<longrightarrow> (\<exists>cl. create_clients env cfg = Inr cl)"
    using probe_detect_basic_logged(2) [OF p1] r0 by simp
  have a2: "list_ex attribute_request lg2 = (detect_basic r1 \<and> given url)"
    using probe_detect_attributes_logged [OF p2] a1 cl by auto
  have a3: "list_ex attribute_request lg3 = (detect_basic r1 \<and> given url)"
    using probe_large_person_group_logged [OF p3] a2 by simp
  have b: "detect_basic r3 = detect_basic r1"
    using probe_detect_attributes_flags(1) [OF p2] probe_large_person_group_flags(1) [OF p3]
    by simp
  have c: "\<not> detect_basic r1 \<longrightarrow> \<not> detect_attributes r3"
    using probe_detect_basic_flags(1) [OF p1] probe_detect_attributes_flags(4) [OF p2]
      probe_large_person_group_flags(2) [OF p3] r0
    by auto
  have rep: "detect_basic r = returned (fst (basic_check (logged sdk) loads env cfg url (w, [])))"
    "detect_attributes r
       = (returned (fst (basic_check (logged sdk) loads env cfg url (w, [])))
          \<and> (\<not> given url
               \<or> returned (fst (attribute_check (logged sdk) loads env cfg url (w, [])))))"
    using assms unfolding probe_endpoint_report by auto
  have d: "detect_basic r \<and> given url \<longrightarrow>
            (detect_attributes r
               \<longleftrightarrow> returned (fst (attribute_check (logged sdk) loads env cfg url (w, []))))"
    using rep by auto
  have e: "\<forall>e. detect_basic r \<and> given url
                \<and> fst (attribute_check (logged sdk) loads env cfg url (w, [])) = Inl e
             \<longrightarrow> \<not> detect_attributes r"
    using d by (auto simp add: returned_def)
  show ?thesis
    using a3 b c d e eq by auto
qed

lemma probe_basic_only_no_url:
  "fst (probe_endpoint (logged basic_only_sdk) json_loads Map.empty key_cfg None ((), []))
     = Inr \<lparr>detect_basic = False, detect_attributes = False, largePersonGroup = True,
            errors = [''detect_basic error: HttpResponseError('(400) invalid image')'']\<rparr>"
  "list_ex attribute_request
     (snd (snd (probe_endpoint (logged basic_only_sdk) json_loads Map.empty key_cfg None ((), []))))
     = False"
  by code_simp+

lemma probe_basic_only_url:
  "fst (probe_endpoint (logged basic_only_sdk) json_loads Map.empty key_cfg
          (Some ''https://img.example/a.jpg'') ((), []))
     = Inr \<lparr>detect_basic = True, detect_attributes = False, largePersonGroup = True,
            errors = [''detect_attributes error: HttpResponseError('(403) feature not available')'']\<rparr>"
  "list_ex attribute_request
     (snd (snd (probe_endpoint (logged basic_only_sdk) json_loads Map.empty key_cfg
                  (Some ''https://img.example/a.jpg'') ((), []))))
     = True"
  by code_simp+

lemma probe_accepting_no_url:
  "fst (probe_endpoint (logged accepting_sdk) json_loads Map.empty key_cfg None ((), []))
     = Inr \<lparr>detect_basic = True, detect_attributes = True, largePersonGroup = True, errors = []\<rparr>"
  "list_ex attribute_request
     (snd (snd (probe_endpoint (logged accepting_sdk) json_loads Map.empty key_cfg None ((), []))))
     = False"
  by code_simp+


lemma attribute_check_basic_only_url:
  "fst (attribute_check (logged basic_only_sdk) json_loads Map.empty key_cfg
          (Some ''https://img.example/a.jpg'') ((), []))
     = Inl (HttpResponseError ''(403) feature not available'')"
  by code_simp

theorem probe_attribute_check_witness:
  "\<not> list_ex attribute_request
       (snd (snd (probe_endpoint (logged basic_only_sdk) json_loads Map.empty key_cfg None ((), []))))
   \<and> list_ex attribute_request
       (snd (snd (probe_endpoint (logged basic_only_sdk) json_loads Map.empty key_cfg
                    (Some ''https://img.example/a.jpg'') ((), []))))
   \<and> fst (attribute_check (logged basic_only_sdk) json_loads Map.empty key_cfg
          (Some ''https://img.example/a.jpg'') ((), []))
       = Inl (HttpResponseError ''(403) feature not available'')
   \<and> fst (probe_endpoint (logged basic_only_sdk) json_loads Map.empty key_cfg
            (Some ''https://img.example/a.jpg'') ((), []))
       = Inr \<lparr>detect_basic = True, detect_attributes = False, largePersonGroup = True,
              errors = [''detect_attributes error: HttpResponseError('(403) feature not available')'']\<rparr>"
proof -
  let ?a = "probe_endpoint (logged basic_only_sdk) json_loads Map.empty key_cfg None ((), [])"
  let ?b = "probe_endpoint (logged basic_only_sdk) json_loads Map.empty key_cfg
              (Some ''https://img.example/a.jpg'') ((), [])"
  have ha: "?a = (Inr \<lparr>detect_basic = False, detect_attributes = False, largePersonGroup = True,
            errors = [''detect_basic error: HttpResponseError('(400) invalid image')'']\<rparr>,
            (fst (snd ?a), snd (snd ?a)))"
    by (simp add: prod_eq_iff probe_basic_only_no_url(1))
  have hb: "?b = (Inr \<lparr>detect_basic = True, detect_attributes = False, largePersonGroup = True,
            errors = [''detect_attributes error: HttpResponseError('(403) feature not available')'']\<rparr>,
            (fst (snd ?b), snd (snd ?b)))"
    by (simp add: prod_eq_iff probe_basic_only_url(1))
  from probe_attribute_check [OF ha] have "\<not> list_ex attribute_request (snd (snd ?a))"
    by simp
  moreover from probe_attribute_check [OF hb] have "list_ex attribute_request (snd (snd ?b))"
    by (simp add: given_def)
  ultimately show ?thesis
    using attribute_check_basic_only_url probe_basic_only_url(1) by blast
qed

text \<open>
  The claim as first stated fails: the run without a URL, in which no attribute
  request is sent, and the run with a URL, in which the attribute request is sent
  and refused, report the same value for \<^verbatim>\<open>detect_attributes\<close>. Against a service
  that accepts the degenerate image, the run without a URL sends no attribute
  request either and reports the other boolean.
\<close>

theorem probe_not_run_counterexample:
  "fst (probe_endpoint (logged basic_only_sdk) json_loads Map.empty key_cfg None ((), []))
     = Inr \<lparr>detect_basic = False, detect_attributes = False, largePersonGroup = True,
            errors = [''detect_basic error: HttpResponseError('(400) invalid image')'']\<rparr>
   \<and> \<not> list_ex attribute_request
         (snd (snd (probe_endpoint (logged basic_only_sdk) json_loads Map.empty key_cfg None ((), []))))
   \<and> fst (probe_endpoint (logged basic_only_sdk) json_loads Map.empty key_cfg
            (Some ''https://img.example/a.jpg'') ((), []))
     = Inr \<lparr>detect_basic = True, detect_attributes = False, largePersonGroup = True,
            errors = [''detect_attributes error: HttpResponseError('(403) feature not available')'']\<rparr>
   \<and> list_ex attribute_request
         (snd (snd (probe_endpoint (logged basic_only_sdk) json_loads Map.empty key_cfg
                      (Some ''https://img.example/a.jpg'') ((), []))))
   \<and> fst (probe_endpoint (logged accepting_sdk) json_loads Map.empty key_cfg None ((), []))
     = Inr \<lparr>detect_basic = True, detect_attributes = True, largePersonGroup = True, errors = []\<rparr>
   \<and> \<not> list_ex attribute_request
         (snd (snd (probe_endpoint (logged accepting_sdk) json_loads Map.empty key_cfg None ((), []))))"
  by (simp add: probe_basic_only_no_url probe_basic_only_url probe_accepting_no_url)

end
